theory Spec2Isabelle
  imports Complex_Main
begin

section \<open>Python values\<close>

text \<open>
  The development embeds \<^verbatim>\<open>bedrock_utils.py\<close>: the two extractors
  \<^verbatim>\<open>extract_customer_name\<close> and \<^verbatim>\<open>extract_phone_number\<close>, the formatter
  \<^verbatim>\<open>format_order_table\<close>, and the two request handlers
  \<^verbatim>\<open>get_response_with_rag\<close> and \<^verbatim>\<open>handle_customer_service_request\<close>.

  A Python \<^verbatim>\<open>str\<close> is a \<^typ>\<open>string\<close>; a character is read as the code point of
  its 8-bit value, so utterances range over the code points U+0000 to U+00FF. A call
  that may raise returns \<open>exn + 'a\<close>, with \<open>Inl\<close> the exception raised. The calls to
  \<^verbatim>\<open>logger\<close> write a log record and are left out.
\<close>

datatype exn =
  AttributeError
  | Exception string

subsection \<open>Character predicates and case mapping\<close>

text \<open>
  \<^verbatim>\<open>str.isdigit\<close> on the 8-bit range: the decimal digits and the three superscript
  digits U+00B2, U+00B3 and U+00B9.
\<close>

definition isdigit :: "char \<Rightarrow> bool" where
  "isdigit c =
     (let n = (of_char c :: nat)
      in (48 \<le> n \<and> n \<le> 57) \<or> n = 178 \<or> n = 179 \<or> n = 185)"

text \<open>
  \<^verbatim>\<open>str.lower\<close> on the 8-bit range: \<^verbatim>\<open>A-Z\<close> and the capital letters U+00C0 to
  U+00DE (the multiplication sign U+00D7 apart) move up by 32.
\<close>

definition lower_char :: "char \<Rightarrow> char" where
  "lower_char c =
     (let n = (of_char c :: nat)
      in if (65 \<le> n \<and> n \<le> 90) \<or> (192 \<le> n \<and> n \<le> 222 \<and> n \<noteq> 215)
         then char_of (n + 32) else c)"

definition lower :: "string \<Rightarrow> string" where
  "lower s = map lower_char s"

subsection \<open>Slices and substrings\<close>

text \<open>
  Python's slice \<^verbatim>\<open>xs[i:j]\<close> and \<^verbatim>\<open>xs[i:]\<close>: a negative index counts from the
  end, and every index is clamped to the range of the list.
\<close>

definition norm_idx :: "nat \<Rightarrow> int \<Rightarrow> nat" where
  "norm_idx n i = (if i < 0 then nat (max 0 (int n + i)) else min n (nat i))"

definition slice :: "'a list \<Rightarrow> int \<Rightarrow> int \<Rightarrow> 'a list" where
  "slice xs i j =
     (let a = norm_idx (length xs) i; b = norm_idx (length xs) j
      in take (b - a) (drop a xs))"

definition slice_from :: "'a list \<Rightarrow> int \<Rightarrow> 'a list" where
  "slice_from xs i = drop (norm_idx (length xs) i) xs"

definition slice_to :: "'a list \<Rightarrow> int \<Rightarrow> 'a list" where
  "slice_to xs j = take (norm_idx (length xs) j) xs"

text \<open>\<^verbatim>\<open>s.startswith(w)\<close> and \<^verbatim>\<open>w in s\<close>.\<close>

fun startswith :: "string \<Rightarrow> string \<Rightarrow> bool" where
  "startswith s [] = True"
| "startswith [] (c # w) = False"
| "startswith (d # s) (c # w) = (d = c \<and> startswith s w)"

fun str_in :: "string \<Rightarrow> string \<Rightarrow> bool" where
  "str_in w [] = (w = [])"
| "str_in w (c # s) = (startswith (c # s) w \<or> str_in w s)"

text \<open>The number of positions of \<open>s\<close> at which \<open>w\<close> starts.\<close>

fun occurrences :: "string \<Rightarrow> string \<Rightarrow> nat" where
  "occurrences w [] = (if w = [] then 1 else 0)"
| "occurrences w (c # s) = (if startswith (c # s) w then 1 else 0) + occurrences w s"

section \<open>The phone number extractor\<close>

text \<open>
  \<^verbatim>\<open>extract_phone_number\<close>: keep the digit characters; ten of them get the prefix
  \<^verbatim>\<open>+1\<close>, eleven starting with \<^verbatim>\<open>1\<close> get the prefix \<^verbatim>\<open>+\<close>, anything else is
  \<^verbatim>\<open>None\<close>.
\<close>

definition extract_phone_number :: "string \<Rightarrow> string option" where
  "extract_phone_number prompt =
     (let cleaned_number = filter isdigit prompt
      in if length cleaned_number = 10 then Some (''+1'' @ cleaned_number)
         else if length cleaned_number = 11 \<and> startswith cleaned_number ''1''
         then Some (''+'' @ cleaned_number)
         else None)"

text \<open>
  The normalisation inside \<^verbatim>\<open>handle_customer_service_request\<close>:
  \<^verbatim>\<open>f"+1{''.join(filter(str.isdigit, prompt))[-10:]}"\<close>.
\<close>

definition formatted_phone :: "string \<Rightarrow> string" where
  "formatted_phone prompt = ''+1'' @ slice_from (filter isdigit prompt) (- 10)"

section \<open>The customer name extractor\<close>

subsection \<open>Regular expressions with backtracking\<close>

text \<open>
  The seven patterns of \<^verbatim>\<open>extract_customer_name\<close> use literals, the classes
  \<^verbatim>\<open>[a-zA-Z]\<close>, \<^verbatim>\<open>\s\<close> and \<^verbatim>\<open>.\<close>, greedy \<^verbatim>\<open>+\<close> on a class, lazy
  \<^verbatim>\<open>*?\<close> on a class, greedy \<^verbatim>\<open>?\<close>, alternation, sequence and two capture
  groups. On the 8-bit range \<^verbatim>\<open>\s\<close> is U+0009 to U+000D, U+001C to U+0020, U+0085
  and U+00A0, and \<^verbatim>\<open>.\<close> is every character but the line feed.
\<close>

definition isspace :: "char \<Rightarrow> bool" where
  "isspace c =
     (let n = (of_char c :: nat)
      in (9 \<le> n \<and> n \<le> 13) \<or> (28 \<le> n \<and> n \<le> 32) \<or> n = 133 \<or> n = 160)"

definition isletter :: "char \<Rightarrow> bool" where
  "isletter c =
     (let n = (of_char c :: nat)
      in (97 \<le> n \<and> n \<le> 122) \<or> (65 \<le> n \<and> n \<le> 90))"

datatype cclass = Letter | Space | Dot

fun in_class :: "cclass \<Rightarrow> char \<Rightarrow> bool" where
  "in_class Letter c = isletter c"
| "in_class Space c = isspace c"
| "in_class Dot c = (c \<noteq> CHR ''\<newline>'')"

datatype regex =
  Eps
  | Lit string
  | Plus cclass
  | LazyStar cclass
  | Then regex regex
  | Or regex regex
  | Opt regex
  | Group nat regex

text \<open>
  A matcher state is the text still to be read and the groups captured so far, the
  latest first. \<open>rmatch r st\<close> lists every way \<open>r\<close> can match at the front of the
  text, in the order in which a backtracking matcher tries them: the longest run first
  for a greedy \<^verbatim>\<open>+\<close>, the shortest first for a lazy \<^verbatim>\<open>*?\<close>, the body before the
  skip for \<^verbatim>\<open>?\<close>, the left alternative before the right. The head of the list is
  the match that \<^verbatim>\<open>re\<close> reports.
\<close>

type_synonym mstate = "string \<times> (nat \<times> string) list"

fun rmatch :: "regex \<Rightarrow> mstate \<Rightarrow> mstate list" where
  "rmatch Eps st = [st]"
| "rmatch (Lit w) (s, g) = (if startswith s w then [(drop (length w) s, g)] else [])"
| "rmatch (Plus cl) (s, g) =
     map (\<lambda>k. (drop k s, g)) (rev [1..<Suc (length (takeWhile (in_class cl) s))])"
| "rmatch (LazyStar cl) (s, g) =
     map (\<lambda>k. (drop k s, g)) [0..<Suc (length (takeWhile (in_class cl) s))]"
| "rmatch (Then r1 r2) st = concat (map (rmatch r2) (rmatch r1 st))"
| "rmatch (Or r1 r2) st = rmatch r1 st @ rmatch r2 st"
| "rmatch (Opt r) st = rmatch r st @ [st]"
| "rmatch (Group n r) (s, g) =
     map (\<lambda>(s', g'). (s', (n, take (length s - length s') s) # g')) (rmatch r (s, g))"

text \<open>
  \<^verbatim>\<open>re.search\<close>: the first start position, from the left, at which the pattern
  matches; the result is the groups of that match.
\<close>

fun search :: "regex \<Rightarrow> string \<Rightarrow> (nat \<times> string) list option" where
  "search r s =
     (case rmatch r (s, []) of
        st # _ \<Rightarrow> Some (snd st)
      | [] \<Rightarrow> (case s of [] \<Rightarrow> None | _ # t \<Rightarrow> search r t))"

text \<open>The patterns that read letters only.\<close>

fun letters_only :: "regex \<Rightarrow> bool" where
  "letters_only Eps = True"
| "letters_only (Lit w) = list_all isletter w"
| "letters_only (Plus cl) = (cl = Letter)"
| "letters_only (LazyStar cl) = False"
| "letters_only (Then r1 r2) = (letters_only r1 \<and> letters_only r2)"
| "letters_only (Or r1 r2) = (letters_only r1 \<and> letters_only r2)"
| "letters_only (Opt r) = letters_only r"
| "letters_only (Group n r) = letters_only r"

text \<open>\<^verbatim>\<open>match.group(n)\<close>: \<^verbatim>\<open>None\<close> for a group that took no part in the match.\<close>

definition group :: "(nat \<times> string) list \<Rightarrow> nat \<Rightarrow> string option" where
  "group m n = map_of m n"

subsection \<open>The patterns\<close>

definition seq :: "regex list \<Rightarrow> regex" where
  "seq rs = foldr Then rs Eps"

definition alt :: "string list \<Rightarrow> regex" where
  "alt ws = foldr (\<lambda>w r. Or (Lit w) r) (butlast ws) (Lit (last ws))"

abbreviation spaces :: regex where
  "spaces \<equiv> Plus Space"

abbreviation name1 :: regex where
  "name1 \<equiv> Group 1 (Plus Letter)"

abbreviation name2 :: regex where
  "name2 \<equiv> Group 2 (Plus Letter)"

abbreviation order_s :: regex where
  "order_s \<equiv> Then (Lit ''order'') (Opt (Lit ''s''))"

abbreviation apostrophe_s :: regex where
  "apostrophe_s \<equiv> Opt (Lit [CHR 0x27, CHR ''s''])"

text \<open>
  The list \<^verbatim>\<open>patterns\<close>, in the source's order:
  \<^enum> \<^verbatim>\<open>show\s+(?:me\s+)?(?:the\s+)?(?:orders?\s+(?:for|of)\s+)?([a-zA-Z]+)\s+([a-zA-Z]+)\<close>
  \<^enum> \<^verbatim>\<open>(?:what\s+(?:are|were)\s+)?([a-zA-Z]+)\s+([a-zA-Z]+)(?:'s)?\s+orders?\<close>
  \<^enum> \<^verbatim>\<open>find\s+(?:the\s+)?orders?\s+(?:for|of)\s+([a-zA-Z]+)\s+([a-zA-Z]+)\<close>
  \<^enum> \<^verbatim>\<open>(?:get|fetch|pull|retrieve)\s+([a-zA-Z]+)\s+([a-zA-Z]+)(?:'s)?\s+orders?\<close>
  \<^enum> \<^verbatim>\<open>([a-zA-Z]+)\s+([a-zA-Z]+)(?:'s)?\s+(?:order|purchase|transaction)s?\<close>
  \<^enum> \<^verbatim>\<open>orders?\s+(?:for|by|from)\s+([a-zA-Z]+)\s+([a-zA-Z]+)\<close>
  \<^enum> \<^verbatim>\<open>.*?(?:order|purchase|history).*?([a-zA-Z]+)\s+([a-zA-Z]+)\<close>
\<close>

definition patterns :: "regex list" where
  "patterns =
    [seq [Lit ''show'', spaces, Opt (seq [Lit ''me'', spaces]), Opt (seq [Lit ''the'', spaces]),
          Opt (seq [order_s, spaces, alt [''for'', ''of''], spaces]), name1, spaces, name2],
     seq [Opt (seq [Lit ''what'', spaces, alt [''are'', ''were''], spaces]),
          name1, spaces, name2, apostrophe_s, spaces, order_s],
     seq [Lit ''find'', spaces, Opt (seq [Lit ''the'', spaces]), order_s, spaces,
          alt [''for'', ''of''], spaces, name1, spaces, name2],
     seq [alt [''get'', ''fetch'', ''pull'', ''retrieve''], spaces,
          name1, spaces, name2, apostrophe_s, spaces, order_s],
     seq [name1, spaces, name2, apostrophe_s, spaces,
          alt [''order'', ''purchase'', ''transaction''], Opt (Lit ''s'')],
     seq [order_s, spaces, alt [''for'', ''by'', ''from''], spaces, name1, spaces, name2],
     seq [LazyStar Dot, alt [''order'', ''purchase'', ''history''], LazyStar Dot,
          name1, spaces, name2]]"

subsection \<open>Title case\<close>

text \<open>
  \<^verbatim>\<open>str.title\<close> on the letters \<^verbatim>\<open>a-z\<close> and \<^verbatim>\<open>A-Z\<close>: a letter that follows a
  letter is lowered, any other letter is raised. The extractor calls it on captures of
  \<^verbatim>\<open>[a-zA-Z]+\<close> only; characters other than these letters are kept and end a word.
\<close>

definition upper_ascii :: "char \<Rightarrow> char" where
  "upper_ascii c =
     (let n = (of_char c :: nat) in if 97 \<le> n \<and> n \<le> 122 then char_of (n - 32) else c)"

definition lower_ascii :: "char \<Rightarrow> char" where
  "lower_ascii c =
     (let n = (of_char c :: nat) in if 65 \<le> n \<and> n \<le> 90 then char_of (n + 32) else c)"

fun title_from :: "bool \<Rightarrow> string \<Rightarrow> string" where
  "title_from previous_is_cased [] = []"
| "title_from previous_is_cased (c # s) =
     (if isletter c
      then (if previous_is_cased then lower_ascii c else upper_ascii c) # title_from True s
      else c # title_from False s)"

definition title :: "string \<Rightarrow> string" where
  "title s = title_from False s"

subsection \<open>The extractor\<close>

text \<open>
  The loop of \<^verbatim>\<open>extract_customer_name\<close> over the patterns: the first pattern found
  in the lowered prompt gives the result, its two groups in title case.
  \<^verbatim>\<open>.title()\<close> on a group that is \<^verbatim>\<open>None\<close> would raise \<^verbatim>\<open>AttributeError\<close>.
\<close>

fun extract_from :: "regex list \<Rightarrow> string \<Rightarrow> exn + (string \<times> string) option" where
  "extract_from [] prompt = Inr None"
| "extract_from (pattern # rest) prompt =
     (case search pattern (lower prompt) of
        Some m \<Rightarrow>
          (case group m 1 of
             None \<Rightarrow> Inl AttributeError
           | Some first \<Rightarrow>
               (case group m 2 of
                  None \<Rightarrow> Inl AttributeError
                | Some second \<Rightarrow> Inr (Some (title first, title second))))
      | None \<Rightarrow> extract_from rest prompt)"

definition extract_customer_name :: "string \<Rightarrow> exn + (string \<times> string) option" where
  "extract_customer_name prompt = extract_from patterns prompt"

section \<open>The order table\<close>

subsection \<open>Numbers as text\<close>

text \<open>
  An order record has the fields the formatter reads. \<^verbatim>\<open>quantity\<close> is an integer and
  is printed by \<^verbatim>\<open>str\<close>. \<^verbatim>\<open>total_price\<close> is a finite number (a \<^verbatim>\<open>float\<close> or a
  \<^verbatim>\<open>Decimal\<close>), taken with its exact value as a rational; the format \<^verbatim>\<open>.2f\<close>
  rounds that exact value to two decimals, a tie going to the even digit, and prints
  the sign of a negative number also when it rounds to zero. A record that lacks a
  field, an identifier that is no string and a price that is no finite number lie
  outside the type; on them the formatter raises, or prints \<^verbatim>\<open>nan\<close> or \<^verbatim>\<open>inf\<close>.
\<close>

record order =
  order_id :: string
  product :: string
  quantity :: int
  order_date :: string
  total_price :: rat

definition digit :: "nat \<Rightarrow> char" where
  "digit n = char_of (48 + n)"

fun str_nat :: "nat \<Rightarrow> string" where
  "str_nat n = (if n < 10 then [digit n] else str_nat (n div 10) @ [digit (n mod 10)])"

definition str_int :: "int \<Rightarrow> string" where
  "str_int i = (if i < 0 then ''-'' @ str_nat (nat (- i)) else str_nat (nat i))"

definition round_half_even :: "rat \<Rightarrow> int" where
  "round_half_even x =
     (let f = \<lfloor>x\<rfloor>; d = x - of_int f
      in if d < 1 / 2 then f else if 1 / 2 < d then f + 1 else if even f then f else f + 1)"

definition format_2f :: "rat \<Rightarrow> string" where
  "format_2f x =
     (let m = nat (round_half_even (\<bar>x\<bar> * 100))
      in (if x < 0 then ''-'' else []) @ str_nat (m div 100) @ ''.''
         @ [digit (m div 10 mod 10), digit (m mod 10)])"

subsection \<open>The markup\<close>

text \<open>
  The fixed text of the two templates, line by line. The header holds one character
  outside the 8-bit range, the package sign U+1F4E6, written here as the four bytes of
  its UTF-8 form.
\<close>

definition package_sign :: string where
  "package_sign = [CHR 0xF0, CHR 0x9F, CHR 0x93, CHR 0xA6]"

definition header_open :: string where
  \<open>header_open =
       ''\<newline>''
     @ ''    <div style="\<newline>''
     @ ''        font-family: sans-serif;\<newline>''
     @ ''        max-width: 800px;\<newline>''
     @ ''        margin: 0 auto;\<newline>''
     @ ''        padding: 20px;\<newline>''
     @ ''    ">\<newline>''
     @ ''        <h2 style="\<newline>''
     @ ''            color: #1e3a8a;\<newline>''
     @ ''            text-align: center;\<newline>''
     @ ''            margin-bottom: 20px;\<newline>''
     @ ''        ">''\<close>

definition header_close :: string where
  \<open>header_close =
       '' Order History</h2>\<newline>''
     @ ''    ''\<close>

definition block_open :: string where
  \<open>block_open =
       ''\<newline>''
     @ ''        <div style="\<newline>''
     @ ''            background: white;\<newline>''
     @ ''            border-radius: 8px;\<newline>''
     @ ''            padding: 20px;\<newline>''
     @ ''            margin-bottom: 20px;\<newline>''
     @ ''            box-shadow: 0 2px 4px rgba(0,0,0,0.1);\<newline>''
     @ ''        ">\<newline>''
     @ ''            <div style="\<newline>''
     @ ''                font-size: 1.2em;\<newline>''
     @ ''                font-weight: bold;\<newline>''
     @ ''                color: #1e3a8a;\<newline>''
     @ ''                margin-bottom: 15px;\<newline>''
     @ ''            ">\<newline>''
     @ ''                ''\<close>

definition block_product :: string where
  \<open>block_product =
       ''\<newline>''
     @ ''            </div>\<newline>''
     @ ''            \<newline>''
     @ ''            <div style="\<newline>''
     @ ''                display: grid;\<newline>''
     @ ''                grid-template-columns: repeat(auto-fit, minmax(200px, 1fr));\<newline>''
     @ ''                gap: 15px;\<newline>''
     @ ''                margin-bottom: 15px;\<newline>''
     @ ''            ">\<newline>''
     @ ''                <div style="padding: 10px; background: #f8f9fa; border-radius: 5px;">\<newline>''
     @ ''                    <div style="font-size: 0.9em; color: #666;">Product</div>\<newline>''
     @ ''                    <div style="font-weight: 500; color: #333;">''\<close>

definition block_quantity :: string where
  \<open>block_quantity =
       ''</div>\<newline>''
     @ ''                </div>\<newline>''
     @ ''                \<newline>''
     @ ''                <div style="padding: 10px; background: #f8f9fa; border-radius: 5px;">\<newline>''
     @ ''                    <div style="font-size: 0.9em; color: #666;">Quantity</div>\<newline>''
     @ ''                    <div style="font-weight: 500; color: #333;">''\<close>

definition block_order_date :: string where
  \<open>block_order_date =
       ''</div>\<newline>''
     @ ''                </div>\<newline>''
     @ ''                \<newline>''
     @ ''                <div style="padding: 10px; background: #f8f9fa; border-radius: 5px;">\<newline>''
     @ ''                    <div style="font-size: 0.9em; color: #666;">Order Date</div>\<newline>''
     @ ''                    <div style="font-weight: 500; color: #333;">''\<close>

definition block_total :: string where
  \<open>block_total =
       ''</div>\<newline>''
     @ ''                </div>\<newline>''
     @ ''            </div>\<newline>''
     @ ''            \<newline>''
     @ ''            <div style="\<newline>''
     @ ''                text-align: right;\<newline>''
     @ ''                font-size: 1.1em;\<newline>''
     @ ''                color: #1e3a8a;\<newline>''
     @ ''                font-weight: bold;\<newline>''
     @ ''                padding-top: 10px;\<newline>''
     @ ''                border-top: 1px solid #eee;\<newline>''
     @ ''            ">\<newline>''
     @ ''                ''\<close>

definition block_close :: string where
  \<open>block_close =
       ''\<newline>''
     @ ''            </div>\<newline>''
     @ ''        </div>\<newline>''
     @ ''        ''\<close>

definition no_orders_found :: string where
  "no_orders_found = ''<div>No orders found.</div>''"

definition table_header :: string where
  "table_header = header_open @ package_sign @ header_close"

text \<open>The text that one turn of the loop appends to \<^verbatim>\<open>html\<close>.\<close>

definition order_block :: "order \<Rightarrow> string" where
  "order_block order =
     block_open @ ''Order #'' @ slice_to (order_id order) 8 @ ''...''
     @ block_product @ product order
     @ block_quantity @ str_int (quantity order) @ '' units''
     @ block_order_date @ order_date order
     @ block_total @ ''Total Amount: $'' @ format_2f (total_price order)
     @ block_close"

fun append_blocks :: "string \<Rightarrow> order list \<Rightarrow> string" where
  "append_blocks html [] = html"
| "append_blocks html (order # orders) = append_blocks (html @ order_block order) orders"

definition format_order_table :: "order list \<Rightarrow> string" where
  "format_order_table orders =
     (if orders = [] then no_orders_found
      else append_blocks table_header orders @ ''</div>'')"

section \<open>The request handlers\<close>

subsection \<open>Dictionaries, adapters and effects\<close>

text \<open>
  A Python dictionary sent to or received from a service is a JSON object: the list
  of its items. A number is taken with the value that its literal denotes.
  \<^verbatim>\<open>d.get(k, fallback)\<close> is defined on a dictionary only; on any other JSON value
  the attribute is missing.
\<close>

datatype json =
  JNull
  | JBool bool
  | JNum rat
  | JStr string
  | JArr "json list"
  | JObj "(string \<times> json) list"

fun dict_get :: "json \<Rightarrow> string \<Rightarrow> json \<Rightarrow> exn + json" where
  "dict_get (JObj items) k fallback =
     Inr (case map_of items k of Some v \<Rightarrow> v | None \<Rightarrow> fallback)"
| "dict_get response_body k fallback = Inl AttributeError"

text \<open>
  The value both handlers build: \<^verbatim>\<open>{"type": ..., "content": ...}\<close>. The content is
  a string on every path but one: the chat path returns whatever the payload holds
  under \<^verbatim>\<open>completion\<close>.
\<close>

record response =
  type :: string
  content :: json

text \<open>
  The services are parameters of the handlers. Each may raise.
  \<^item> \<^verbatim>\<open>init_dynamodb()\<close> and \<^verbatim>\<open>get_customer_orders(db, first, last)\<close> of
    \<^verbatim>\<open>dynamo_utils\<close>, the order store;
  \<^item> \<^verbatim>\<open>runtime_client.invoke_model(...)\<close> followed by \<^verbatim>\<open>response['body'].read()\<close>,
    the language model, giving the raw payload, and \<^verbatim>\<open>json.loads\<close> on it;
  \<^item> \<^verbatim>\<open>requests.post(url, json=data, headers=headers)\<close>, the calling service;
  \<^item> \<^verbatim>\<open>os.getenv('BLAND_API_KEY')\<close>, a string or \<^verbatim>\<open>None\<close>.

  A handler returns the calls it made to the services, in order, beside its result.
\<close>

record model_request =
  modelId :: string
  contentType :: string
  accept :: string
  body :: json

record http_response =
  status_code :: int
  response_text :: string

datatype effect =
  Query string string
  | InvokeModel model_request
  | Post string json "(string \<times> string option) list"

subsection \<open>Orders first, then the language model\<close>

definition not_found_text :: "string \<Rightarrow> string \<Rightarrow> string" where
  "not_found_text first_name last_name =
     ''I couldn't find any orders for '' @ first_name @ '' '' @ last_name
     @ ''. Would you like to place a new order?''"

definition model_apology :: string where
  "model_apology =
     ''I apologize, but I'm having trouble connecting to my language model. ''
     @ ''Please try again in a moment.''"

definition model_id :: string where
  "model_id = ''us.anthropic.claude-3-5-haiku-20241022-v1:0''"

text \<open>
  The request of the chat path. \<^verbatim>\<open>body\<close> is the dictionary that the source
  serialises with \<^verbatim>\<open>json.dumps\<close> and encodes.
\<close>

definition chat_request :: "string \<Rightarrow> model_request" where
  "chat_request prompt =
     \<lparr>modelId = model_id,
      contentType = ''application/json'',
      accept = ''application/json'',
      body = JObj
        [(''modelId'', JStr model_id),
         (''contentType'', JStr ''application/json''),
         (''accept'', JStr ''application/json''),
         (''body'', JObj
            [(''prompt'', JStr (''\<newline>\<newline>Human: '' @ prompt @ ''\<newline>\<newline>Assistant:'')),
             (''max_tokens'', JNum 2048),
             (''temperature'', JNum (7 / 10)),
             (''top_p'', JNum 1),
             (''stop_sequences'', JArr [JStr ''\<newline>\<newline>Human:''])])]\<rparr>"

text \<open>
  The inner \<^verbatim>\<open>try\<close> of \<^verbatim>\<open>get_response_with_rag\<close>: the call of the model, the
  parsing of the payload and the lookup of \<^verbatim>\<open>completion\<close>; its
  \<^verbatim>\<open>except Exception\<close> returns the apology.
\<close>

definition chat_try ::
  "(model_request \<Rightarrow> exn + string) \<Rightarrow> (string \<Rightarrow> exn + json) \<Rightarrow> string \<Rightarrow> exn + response"
where
  "chat_try invoke_model json_loads prompt =
     (case invoke_model (chat_request prompt) of
        Inl e \<Rightarrow> Inl e
      | Inr payload \<Rightarrow>
          (case json_loads payload of
             Inl e \<Rightarrow> Inl e
           | Inr response_body \<Rightarrow>
               (case dict_get response_body ''completion'' (JStr []) of
                  Inl e \<Rightarrow> Inl e
                | Inr completion \<Rightarrow> Inr \<lparr>type = ''text'', content = completion\<rparr>)))"

definition chat ::
  "(model_request \<Rightarrow> exn + string) \<Rightarrow> (string \<Rightarrow> exn + json) \<Rightarrow> string \<Rightarrow> exn + response"
where
  "chat invoke_model json_loads prompt =
     (case chat_try invoke_model json_loads prompt of
        Inl e \<Rightarrow> Inr \<lparr>type = ''text'', content = JStr model_apology\<rparr>
      | Inr r \<Rightarrow> Inr r)"

text \<open>
  \<^verbatim>\<open>get_response_with_rag\<close>. The outer \<^verbatim>\<open>except Exception as e\<close> logs and ends in
  \<^verbatim>\<open>raise e\<close>, so whatever is raised outside the inner \<^verbatim>\<open>try\<close> reaches the caller:
  \<open>Inl e\<close> is passed on as it is.
\<close>

definition get_response_with_rag ::
  "(exn + 'db) \<Rightarrow> ('db \<Rightarrow> string \<Rightarrow> string \<Rightarrow> exn + order list) \<Rightarrow>
   (model_request \<Rightarrow> exn + string) \<Rightarrow> (string \<Rightarrow> exn + json) \<Rightarrow>
   string \<Rightarrow> effect list \<times> (exn + response)"
where
  "get_response_with_rag init_dynamodb get_customer_orders invoke_model json_loads prompt =
     (case extract_customer_name prompt of
        Inl e \<Rightarrow> ([], Inl e)
      | Inr (Some (first_name, last_name)) \<Rightarrow>
          (case init_dynamodb of
             Inl e \<Rightarrow> ([], Inl e)
           | Inr db \<Rightarrow>
               ([Query first_name last_name],
                case get_customer_orders db first_name last_name of
                  Inl e \<Rightarrow> Inl e
                | Inr orders \<Rightarrow>
                    if orders \<noteq> []
                    then Inr \<lparr>type = ''html'', content = JStr (format_order_table orders)\<rparr>
                    else Inr \<lparr>type = ''text'',
                              content = JStr (not_found_text first_name last_name)\<rparr>))
      | Inr None \<Rightarrow>
          ([InvokeModel (chat_request prompt)], chat invoke_model json_loads prompt))"

subsection \<open>The call-back\<close>

definition cs_keywords :: "string list" where
  "cs_keywords =
     [''speak to someone'', ''talk to a person'', ''customer service'',
      ''representative'', ''speak to a human'', ''talk to someone'',
      ''call me'', ''contact me'']"

definition is_cs_request :: "string \<Rightarrow> bool" where
  "is_cs_request prompt = list_ex (\<lambda>keyword. str_in keyword (lower prompt)) cs_keywords"

definition is_just_numbers :: "string \<Rightarrow> bool" where
  "is_just_numbers prompt = (10 \<le> (\<Sum>c\<leftarrow>prompt. if isdigit c then 1 else (0::int)))"

definition ask_for_number :: string where
  "ask_for_number =
     ''I'd be happy to have Sara, our customer service specialist, give you a call! ''
     @ ''What's the best phone number to reach you at? You can share it in any format ''
     @ ''like: 123-456-7890 or (123) 456-7890''"

definition call_confirmation :: "string \<Rightarrow> string" where
  "call_confirmation formatted =
     ''Perfect! Sara will be calling you right now at ''
     @ slice formatted (- 10) (- 7) @ ''-'' @ slice formatted (- 7) (- 4) @ ''-''
     @ slice_from formatted (- 4) @ ''. ''
     @ ''She's looking forward to helping you with any questions you have about our ''
     @ ''artisanal wooden balls!''"

definition call_failed :: string where
  "call_failed =
     ''I apologize, but I'm having trouble connecting with Sara at the moment. ''
     @ ''Please try again in a few minutes or call us directly at (719) 266-2837''"

definition call_error :: string where
  "call_error =
     ''I apologize, but I'm experiencing technical difficulties arranging the call. ''
     @ ''Please contact our customer service directly at (719) 266-2837''"

definition call_task :: string where
  \<open>call_task =
       ''You are Sara from Rivertown Ball Company following up on a chat conversation they were just having, looking to ask them if they have any questions you can help with. \<newline>''
     @ ''                Start the call with: "Hi, this is Sara from Rivertown Ball Company!"\<newline>''
     @ ''                Be warm, friendly and helpful while assisting with their questions about our artisanal wooden balls.\<newline>''
     @ ''                Make them feel valued and excited about our products!''\<close>

record bland_config =
  headers :: "(string \<times> string option) list"
  base_url :: string

definition init_bland :: "string option \<Rightarrow> bland_config" where
  "init_bland api_key =
     \<lparr>headers = [(''Authorization'', api_key)], base_url = ''https://us.api.bland.ai/v1''\<rparr>"

definition call_data :: "string \<Rightarrow> json" where
  "call_data formatted =
     JObj
       [(''phone_number'', JStr formatted),
        (''task'', JStr call_task),
        (''model'', JStr ''turbo''),
        (''voice'', JStr ''Alexa''),
        (''max_duration'', JNum 12),
        (''wait_for_greeting'', JBool True),
        (''temperature'', JNum (8 / 10))]"

text \<open>
  The body of the \<^verbatim>\<open>try\<close> of \<^verbatim>\<open>handle_customer_service_request\<close>: the request
  phrases are tested first, then the count of digits; with neither, the result is
  \<^verbatim>\<open>None\<close>.
\<close>

definition call_try ::
  "string option \<Rightarrow>
   (string \<Rightarrow> json \<Rightarrow> (string \<times> string option) list \<Rightarrow> exn + http_response) \<Rightarrow>
   string \<Rightarrow> effect list \<times> (exn + string option)"
where
  "call_try api_key post prompt =
     (if is_cs_request prompt then ([], Inr (Some ask_for_number))
      else if is_just_numbers prompt then
        (let data = call_data (formatted_phone prompt);
             bland_config = init_bland api_key;
             url = base_url bland_config @ ''/calls''
         in ([Post url data (headers bland_config)],
             case post url data (headers bland_config) of
               Inl e \<Rightarrow> Inl e
             | Inr response \<Rightarrow>
                 if status_code response = 200
                 then Inr (Some (call_confirmation (formatted_phone prompt)))
                 else Inr (Some call_failed)))
      else ([], Inr None))"

text \<open>
  \<^verbatim>\<open>handle_customer_service_request\<close>: its \<^verbatim>\<open>except Exception\<close> returns a fixed
  text. The parameter \<^verbatim>\<open>phone_number\<close> is not read.
\<close>

definition handle_customer_service_request ::
  "string option \<Rightarrow>
   (string \<Rightarrow> json \<Rightarrow> (string \<times> string option) list \<Rightarrow> exn + http_response) \<Rightarrow>
   string \<Rightarrow> string option \<Rightarrow> effect list \<times> (exn + string option)"
where
  "handle_customer_service_request api_key post prompt phone_number =
     (case call_try api_key post prompt of
        (calls, Inl e) \<Rightarrow> (calls, Inr (Some call_error))
      | (calls, Inr r) \<Rightarrow> (calls, Inr r))"

subsection \<open>The router\<close>

text \<open>
  Modelled from the spec: the dispatcher \<^verbatim>\<open>get_combined_response\<close> of the module
  \<^verbatim>\<open>chat_service\<close>, which \<^verbatim>\<open>app.py\<close> calls on every utterance, is missing from
  the sources, and so is the session state it works on. The specification gives the
  state as a record of two fields, \<^verbatim>\<open>pending_phone_number: optional string\<close> and
  \<^verbatim>\<open>customer_service_mode: boolean\<close>, both empty at the start of a session, the
  second being true in the state \<^verbatim>\<open>AWAITING_PHONE\<close>.
\<close>

record conversation_state =
  pending_phone_number :: "string option"
  customer_service_mode :: bool

definition initial_state :: conversation_state where
  "initial_state = \<lparr>pending_phone_number = None, customer_service_mode = False\<rparr>"

text \<open>
  The text that \<^verbatim>\<open>handle_customer_service_request\<close> returns, as a response of kind
  \<^verbatim>\<open>text\<close>, beside the calls that the handler made.
\<close>

definition text_response ::
  "effect list \<times> (exn + string option) \<Rightarrow> effect list \<times> (exn + response)"
where
  "text_response handled =
     (case handled of
        (calls, Inl e) \<Rightarrow> (calls, Inl e)
      | (calls, Inr reply) \<Rightarrow>
          (calls, Inr \<lparr>type = ''text'',
                       content = (case reply of Some t \<Rightarrow> JStr t | None \<Rightarrow> JNull)\<rparr>))"

text \<open>
  Modelled from the spec: \<^verbatim>\<open>route(utterance, state) -> (RoutedResponse, updated state)\<close>,
  the router that stands for the missing \<^verbatim>\<open>get_combined_response\<close>. Its rules are
  evaluated in this order for every utterance, and the first that matches wins.
  \<^enum> Order lookup: if the name extractor yields a name, query the order store and
    return the table of the orders, or the text that none were found. These are the
    lines of \<^verbatim>\<open>get_response_with_rag\<close> under \<^verbatim>\<open>if customer_name\<close>. The state is
    left as it is.
  \<^enum> Customer-service trigger, only reachable if rule 1 did not match: if the
    utterance contains one of the request phrases, go to \<^verbatim>\<open>AWAITING_PHONE\<close> and
    return the fixed prompt that asks for a number.
  \<^enum> Phone-number completion: if the utterance holds at least ten digit characters,
    whatever the state, place the call, return the confirmation or the apology, and
    reset \<^verbatim>\<open>AWAITING_PHONE\<close> to false.
  \<^enum> Fallback: forward the utterance to the language model.

  The answers of rules 2 and 3 are those of \<^verbatim>\<open>handle_customer_service_request\<close>, and
  rule 4 is \<^verbatim>\<open>get_response_with_rag\<close> on an utterance without a name. A router
  returns the calls made to the services and the response, and the updated state.
\<close>

definition route ::
  "(exn + 'db) \<Rightarrow> ('db \<Rightarrow> string \<Rightarrow> string \<Rightarrow> exn + order list) \<Rightarrow>
   (model_request \<Rightarrow> exn + string) \<Rightarrow> (string \<Rightarrow> exn + json) \<Rightarrow>
   string option \<Rightarrow>
   (string \<Rightarrow> json \<Rightarrow> (string \<times> string option) list \<Rightarrow> exn + http_response) \<Rightarrow>
   string \<Rightarrow> conversation_state \<Rightarrow>
   (effect list \<times> (exn + response)) \<times> conversation_state"
where
  "route init_dynamodb get_customer_orders invoke_model json_loads api_key post utterance state =
     (case extract_customer_name utterance of
        Inl e \<Rightarrow> (([], Inl e), state)
      | Inr (Some name) \<Rightarrow>
          (get_response_with_rag init_dynamodb get_customer_orders invoke_model json_loads
             utterance,
           state)
      | Inr None \<Rightarrow>
          if is_cs_request utterance then
            (text_response (handle_customer_service_request api_key post utterance
               (pending_phone_number state)),
             state\<lparr>customer_service_mode := True\<rparr>)
          else if is_just_numbers utterance then
            (text_response (handle_customer_service_request api_key post utterance
               (pending_phone_number state)),
             state\<lparr>customer_service_mode := False\<rparr>)
          else
            (get_response_with_rag init_dynamodb get_customer_orders invoke_model json_loads
               utterance,
             state))"

subsection \<open>Sample services\<close>

text \<open>
  Services with a fixed behaviour, to run the handlers on concrete inputs: a calling
  service that accepts every call; a calling service, an order store, a language model
  and a parser that raise; an order store that holds one order, of Jane Doe; a language
  model whose payload is the empty object.
\<close>

definition accepting_post ::
  "string \<Rightarrow> json \<Rightarrow> (string \<times> string option) list \<Rightarrow> exn + http_response"
where
  "accepting_post url data hdrs = Inr \<lparr>status_code = 200, response_text = []\<rparr>"

definition failing_store :: "unit \<Rightarrow> string \<Rightarrow> string \<Rightarrow> exn + order list" where
  "failing_store db first_name last_name = Inl (Exception ''order store unavailable'')"

definition failing_model :: "model_request \<Rightarrow> exn + string" where
  "failing_model request = Inl (Exception ''language model unavailable'')"

definition failing_loads :: "string \<Rightarrow> exn + json" where
  "failing_loads payload = Inl (Exception ''not JSON'')"

definition failing_post ::
  "string \<Rightarrow> json \<Rightarrow> (string \<times> string option) list \<Rightarrow> exn + http_response"
where
  "failing_post url data hdrs = Inl (Exception ''calling service unavailable'')"

definition sample_order :: order where
  "sample_order =
     \<lparr>order_id = ''abcd1234efgh'', product = ''Maple Sphere'', quantity = 2,
      order_date = ''2024-01-05'', total_price = 3998 / 100\<rparr>"

definition sample_store :: "unit \<Rightarrow> string \<Rightarrow> string \<Rightarrow> exn + order list" where
  "sample_store db first_name last_name =
     Inr (if first_name = ''Jane'' \<and> last_name = ''Doe'' then [sample_order] else [])"

definition empty_model :: "model_request \<Rightarrow> exn + string" where
  "empty_model request = Inr ''{}''"

definition loads_empty :: "string \<Rightarrow> exn + json" where
  "loads_empty payload = Inr (JObj [])"

section \<open>Properties of strings and slices\<close>

lemma startswith_iff: "startswith s w \<longleftrightarrow> (\<exists>q. s = w @ q)"
  by (induction s w rule: startswith.induct) auto

lemma str_in_iff: "str_in w s \<longleftrightarrow> (\<exists>p q. s = p @ w @ q)"
proof (induction s)
  case Nil
  then show ?case by auto
next
  case (Cons c s)
  show ?case
  proof
    assume "str_in w (c # s)"
    then consider "startswith (c # s) w" | "str_in w s" by auto
    then show "\<exists>p q. c # s = p @ w @ q"
    proof cases
      case 1
      then obtain q where "c # s = w @ q" by (auto simp: startswith_iff)
      then have "c # s = [] @ w @ q" by simp
      then show ?thesis by blast
    next
      case 2
      then obtain p q where "s = p @ w @ q" using Cons.IH by blast
      then have "c # s = (c # p) @ w @ q" by simp
      then show ?thesis by blast
    qed
  next
    assume "\<exists>p q. c # s = p @ w @ q"
    then obtain p q where pq: "c # s = p @ w @ q" by blast
    show "str_in w (c # s)"
    proof (cases p)
      case Nil
      with pq have "startswith (c # s) w" by (auto simp: startswith_iff)
      then show ?thesis by simp
    next
      case (Cons a p')
      with pq have "s = p' @ w @ q" by simp
      then have "str_in w s" using Cons.IH by blast
      then show ?thesis by simp
    qed
  qed
qed

lemma count_digits:
  "(\<Sum>c\<leftarrow>s. if isdigit c then 1 else (0::int)) = int (length (filter isdigit s))"
  by (induction s) auto

lemma is_just_numbers_iff: "is_just_numbers prompt \<longleftrightarrow> 10 \<le> length (filter isdigit prompt)"
  by (simp add: is_just_numbers_def count_digits)

lemma slice_from_last:
  "0 < n \<Longrightarrow> n \<le> length xs \<Longrightarrow> slice_from xs (- int n) = drop (length xs - n) xs"
  by (auto simp: slice_from_def norm_idx_def nat_diff_distrib' max_def)

section \<open>The phone number extractor: results\<close>

text \<open>
  Claim C4. Let \<open>d\<close> be the digit characters of the input, in order. With ten of them
  \<^verbatim>\<open>extract_phone_number\<close> returns \<^verbatim>\<open>+1\<close> followed by \<open>d\<close>; with eleven, the first
  being \<^verbatim>\<open>1\<close>, it returns \<^verbatim>\<open>+\<close> followed by \<open>d\<close>; with any other count it returns
  \<^verbatim>\<open>None\<close>. Eleven digits that do not start with \<^verbatim>\<open>1\<close> give \<^verbatim>\<open>None\<close> as well.
\<close>

theorem extract_phone_number_cases:
  "(length (filter isdigit s) = 10 \<longrightarrow>
      extract_phone_number s = Some (''+1'' @ filter isdigit s)) \<and>
   (length (filter isdigit s) = 11 \<and> hd (filter isdigit s) = CHR ''1'' \<longrightarrow>
      extract_phone_number s = Some (''+'' @ filter isdigit s)) \<and>
   (length (filter isdigit s) = 11 \<and> hd (filter isdigit s) \<noteq> CHR ''1'' \<longrightarrow>
      extract_phone_number s = None) \<and>
   (length (filter isdigit s) \<noteq> 10 \<and> length (filter isdigit s) \<noteq> 11 \<longrightarrow>
      extract_phone_number s = None)"
proof -
  have "startswith d ''1'' \<longleftrightarrow> hd d = CHR ''1''" if "length d = 11" for d
    using that by (cases d) auto
  then show ?thesis
    by (simp add: extract_phone_number_def Let_def)
qed

text \<open>
  The four cases of C4 at concrete inputs: ten digits, eleven digits with a leading
  \<^verbatim>\<open>1\<close>, eleven digits with a leading \<^verbatim>\<open>2\<close>, and seven digits.
\<close>

theorem extract_phone_number_cases_witness:
  "extract_phone_number ''7195551234'' = Some ''+17195551234'' \<and>
   extract_phone_number ''1 (719) 555-1234'' = Some ''+17195551234'' \<and>
   extract_phone_number ''2 (719) 555-1234'' = None \<and>
   extract_phone_number ''5551234'' = None"
  using extract_phone_number_cases [of "''7195551234''"]
    extract_phone_number_cases [of "''1 (719) 555-1234''"]
    extract_phone_number_cases [of "''2 (719) 555-1234''"]
    extract_phone_number_cases [of "''5551234''"]
  by (simp add: isdigit_def)

text \<open>
  Claim C10. Whenever \<^verbatim>\<open>extract_phone_number\<close> returns a number, it is the number
  that \<^verbatim>\<open>handle_customer_service_request\<close> builds from the same input: \<^verbatim>\<open>+1\<close>
  followed by the last ten digit characters.
\<close>

theorem extract_phone_number_is_formatted_phone:
  assumes "extract_phone_number s = Some p"
  shows "p = formatted_phone s"
proof -
  let ?d = "filter isdigit s"
  consider "length ?d = 10" | "length ?d = 11" "startswith ?d ''1''" "length ?d \<noteq> 10"
    using assms by (auto simp: extract_phone_number_def Let_def split: if_splits)
  then show ?thesis
  proof cases
    case 1
    then have "slice_from ?d (- 10) = ?d"
      using slice_from_last [of 10 ?d] by simp
    moreover have "p = ''+1'' @ ?d"
      using assms 1 by (simp add: extract_phone_number_def Let_def)
    ultimately show ?thesis by (simp add: formatted_phone_def)
  next
    case 2
    then obtain r where r: "?d = CHR ''1'' # r" by (auto simp: startswith_iff)
    with 2 have "slice_from ?d (- 10) = r"
      using slice_from_last [of 10 ?d] by simp
    moreover have "p = ''+'' @ ?d"
      using assms 2 by (simp add: extract_phone_number_def Let_def)
    ultimately show ?thesis using r by (simp add: formatted_phone_def)
  qed
qed

text \<open>C10 at an input with eleven digits, where the two routines take different paths.\<close>

theorem extract_phone_number_is_formatted_phone_witness:
  "extract_phone_number ''1 (719) 555-1234'' = Some ''+17195551234'' \<and>
   ''+17195551234'' = formatted_phone ''1 (719) 555-1234''"
proof -
  have h: "extract_phone_number ''1 (719) 555-1234'' = Some ''+17195551234''"
    by (simp add: extract_phone_number_def isdigit_def)
  show ?thesis using h extract_phone_number_is_formatted_phone [OF h] by simp
qed

section \<open>The customer name extractor: results\<close>

text \<open>A match keeps the groups captured before it, and a group captures.\<close>

lemma rmatch_keeps_groups:
  "st' \<in> set (rmatch r st) \<Longrightarrow> fst ` set (snd st) \<subseteq> fst ` set (snd st')"
proof (induction r arbitrary: st st')
  case (Then r1 r2)
  then obtain mid where "mid \<in> set (rmatch r1 st)" "st' \<in> set (rmatch r2 mid)"
    by auto
  then show ?case
    using Then.IH by blast
next
  case (Group n r)
  obtain s g where st: "st = (s, g)" by (cases st)
  with Group.prems obtain s' g' where "(s', g') \<in> set (rmatch r (s, g))"
    and "st' = (s', (n, take (length s - length s') s) # g')"
    by auto
  then show ?case
    using Group.IH [of "(s', g')" "(s, g)"] st by auto
next
  case (Or r1 r2)
  then have "st' \<in> set (rmatch r1 st) \<or> st' \<in> set (rmatch r2 st)"
    by simp
  then show ?case
    using Or.IH by blast
next
  case (Opt r)
  then have "st' \<in> set (rmatch r st) \<or> st' = st"
    by auto
  then show ?case
    using Opt.IH by blast
qed (auto split: if_splits)

lemma rmatch_Group_binds:
  "st' \<in> set (rmatch (Group n r) st) \<Longrightarrow> n \<in> fst ` set (snd st')"
  by (cases st) auto

lemma rmatch_seq_binds:
  assumes "r \<in> set rs"
    and "\<And>st st'. st' \<in> set (rmatch r st) \<Longrightarrow> n \<in> fst ` set (snd st')"
    and "st' \<in> set (rmatch (seq rs) st)"
  shows "n \<in> fst ` set (snd st')"
  using assms(1,3)
proof (induction rs arbitrary: st)
  case Nil
  then show ?case by simp
next
  case (Cons a rs)
  from Cons.prems(2) obtain mid where mid: "mid \<in> set (rmatch a st)"
    and rest: "st' \<in> set (rmatch (seq rs) mid)"
    by (auto simp: seq_def)
  show ?case
  proof (cases "r = a")
    case True
    then have "n \<in> fst ` set (snd mid)"
      using assms(2) mid by blast
    then show ?thesis
      using rmatch_keeps_groups [OF rest] by blast
  next
    case False
    then have "r \<in> set rs" using Cons.prems(1) by simp
    then show ?thesis
      using Cons.IH rest by blast
  qed
qed

lemma patterns_are_seqs:
  "p \<in> set patterns \<Longrightarrow> \<exists>rs. p = seq rs \<and> name1 \<in> set rs \<and> name2 \<in> set rs"
  unfolding patterns_def by (elim disjE | simp | intro exI conjI refl)+

lemma patterns_bind:
  assumes "p \<in> set patterns" and "st' \<in> set (rmatch p st)"
  shows "1 \<in> fst ` set (snd st')" and "2 \<in> fst ` set (snd st')"
proof -
  obtain rs where p: "p = seq rs" and n1: "name1 \<in> set rs" and n2: "name2 \<in> set rs"
    using patterns_are_seqs [OF assms(1)] by blast
  have m: "st' \<in> set (rmatch (seq rs) st)"
    using assms(2) p by simp
  show "1 \<in> fst ` set (snd st')"
    by (rule rmatch_seq_binds [OF n1 _ m]) (rule rmatch_Group_binds)
  show "2 \<in> fst ` set (snd st')"
    by (rule rmatch_seq_binds [OF n2 _ m]) (rule rmatch_Group_binds)
qed

lemma search_is_match:
  "search r s = Some m \<Longrightarrow> \<exists>t st'. st' \<in> set (rmatch r (t, [])) \<and> m = snd st'"
proof (induction r s rule: search.induct)
  case (1 r s)
  show ?case
  proof (cases "rmatch r (s, [])")
    case Nil
    then show ?thesis
      using 1 by (cases s) auto
  next
    case (Cons st sts)
    then have "m = snd st" using "1.prems" by simp
    moreover have "st \<in> set (rmatch r (s, []))" using Cons by simp
    ultimately show ?thesis by blast
  qed
qed

lemma group_bound: "n \<in> fst ` set m \<Longrightarrow> \<exists>t. group m n = Some t"
  unfolding group_def by (cases "map_of m n") (auto simp: map_of_eq_None_iff)

text \<open>
  Both groups stand outside every optional part of every pattern, so
  \<^verbatim>\<open>match.group\<close> never gives \<^verbatim>\<open>None\<close> and the extractor does not raise.
\<close>

lemma extract_from_returns:
  "set ps \<subseteq> set patterns \<Longrightarrow> \<exists>r. extract_from ps prompt = Inr r"
proof (induction ps)
  case Nil
  then show ?case by simp
next
  case (Cons p ps)
  show ?case
  proof (cases "search p (lower prompt)")
    case None
    then show ?thesis using Cons by simp
  next
    case (Some m)
    then obtain t st' where "st' \<in> set (rmatch p (t, []))" "m = snd st'"
      using search_is_match by blast
    moreover have "p \<in> set patterns" using Cons.prems by simp
    ultimately have "1 \<in> fst ` set m" "2 \<in> fst ` set m"
      using patterns_bind by blast+
    then obtain a b where "group m 1 = Some a" "group m 2 = Some b"
      using group_bound by blast
    then show ?thesis using Some by simp
  qed
qed

lemma extract_customer_name_returns: "\<exists>r. extract_customer_name prompt = Inr r"
  unfolding extract_customer_name_def by (rule extract_from_returns) simp

subsection \<open>Words, spaces and the first pattern\<close>

lemma letter_not_space: "isletter c \<Longrightarrow> \<not> isspace c"
  by (auto simp: isletter_def isspace_def Let_def)

lemma space_char: "isspace CHR '' ''" "\<not> isletter CHR '' ''"
  by (simp_all add: isspace_def isletter_def)

lemma takeWhile_run:
  assumes "\<forall>c\<in>set a. P c" and "rest = [] \<or> \<not> P (hd rest)"
  shows "takeWhile P (a @ rest) = a"
proof -
  have "takeWhile P rest = []"
    using assms(2) by (cases rest) auto
  then show ?thesis
    using assms(1) by (simp add: takeWhile_append2)
qed

text \<open>A word that starts a text of letters followed by another character lies within the letters.\<close>

lemma word_prefix:
  assumes "a @ rest = w @ q" and "\<forall>c\<in>set w. isletter c"
    and "rest = [] \<or> \<not> isletter (hd rest)"
  shows "\<exists>a'. a = w @ a'"
proof -
  from assms(1) consider u where "a = w @ u" | u where "u \<noteq> []" "w = a @ u" "rest = u @ q"
    by (auto simp: append_eq_append_conv2) (metis append_Nil2)
  then show ?thesis
  proof cases
    case 1
    then show ?thesis by blast
  next
    case 2
    then have "hd rest = hd u" "hd u \<in> set w" by auto
    then have "isletter (hd rest)" using assms(2) by simp
    moreover have "rest \<noteq> []" using 2 by simp
    ultimately show ?thesis using assms(3) by simp
  qed
qed

lemma letters_only_consumes:
  assumes "letters_only r" and "st' \<in> set (rmatch r (a @ rest, g))"
    and "\<forall>c\<in>set a. isletter c" and "rest = [] \<or> \<not> isletter (hd rest)"
  shows "\<exists>p a'. a = p @ a' \<and> fst st' = a' @ rest"
  using assms(1,2,3)
proof (induction r arbitrary: a g st')
  case Eps
  then show ?case by auto
next
  case (Lit w)
  then have sw: "startswith (a @ rest) w" and st': "st' = (drop (length w) (a @ rest), g)"
    by (auto split: if_splits)
  from sw obtain q where "a @ rest = w @ q"
    by (auto simp: startswith_iff)
  moreover have "\<forall>c\<in>set w. isletter c"
    using Lit.prems(1) by (simp add: list_all_iff)
  ultimately obtain a' where "a = w @ a'"
    using word_prefix assms(4) by blast
  then show ?case using st' by auto
next
  case (Plus cl)
  then have cl: "cl = Letter" by simp
  have run: "takeWhile (in_class Letter) (a @ rest) = a"
    using takeWhile_run [of a isletter rest] Plus.prems(3) assms(4) by (simp add: in_class.simps [abs_def])
  from Plus.prems(2)
  have "st' \<in> (\<lambda>k. (drop k (a @ rest), g)) ` set (rev [1..<Suc (length a)])"
    unfolding cl rmatch.simps run set_map .
  then obtain k where "k \<in> set (rev [1..<Suc (length a)])"
    and "st' = (drop k (a @ rest), g)"
    by (rule imageE)
  then have "a = take k a @ drop k a" "fst st' = drop k a @ rest"
    by auto
  then show ?case by blast
next
  case (LazyStar cl)
  then show ?case by simp
next
  case (Then r1 r2)
  then obtain mid where mid: "mid \<in> set (rmatch r1 (a @ rest, g))"
    and st': "st' \<in> set (rmatch r2 mid)"
    by auto
  have "\<exists>p a'. a = p @ a' \<and> fst mid = a' @ rest"
  proof (rule Then.IH(1))
    show "letters_only r1" using Then.prems(1) by simp
    show "mid \<in> set (rmatch r1 (a @ rest, g))" by (rule mid)
    show "\<forall>c\<in>set a. isletter c" by (rule Then.prems(3))
  qed
  then obtain p1 a1 where a1: "a = p1 @ a1" "fst mid = a1 @ rest"
    by blast
  have "\<exists>p a'. a1 = p @ a' \<and> fst st' = a' @ rest"
  proof (rule Then.IH(2))
    show "letters_only r2" using Then.prems(1) by simp
    show "st' \<in> set (rmatch r2 (a1 @ rest, snd mid))"
      using st' a1(2) by (metis prod.collapse)
    show "\<forall>c\<in>set a1. isletter c" using Then.prems(3) a1(1) by simp
  qed
  then obtain p2 a2 where "a1 = p2 @ a2" "fst st' = a2 @ rest"
    by blast
  then have "a = (p1 @ p2) @ a2 \<and> fst st' = a2 @ rest"
    using a1(1) by simp
  then show ?case by blast
next
  case (Or r1 r2)
  then consider "st' \<in> set (rmatch r1 (a @ rest, g))" | "st' \<in> set (rmatch r2 (a @ rest, g))"
    by auto
  then show ?case
  proof cases
    case 1
    show ?thesis
      by (rule Or.IH(1) [OF _ 1 Or.prems(3)]) (use Or.prems(1) in simp)
  next
    case 2
    show ?thesis
      by (rule Or.IH(2) [OF _ 2 Or.prems(3)]) (use Or.prems(1) in simp)
  qed
next
  case (Opt r)
  then consider "st' \<in> set (rmatch r (a @ rest, g))" | "st' = (a @ rest, g)"
    by auto
  then show ?case
  proof cases
    case 1
    show ?thesis
      by (rule Opt.IH [OF _ 1 Opt.prems(3)]) (use Opt.prems(1) in simp)
  next
    case 2
    then show ?thesis by auto
  qed
next
  case (Group n r)
  from Group.prems(2) obtain s' g' where inner: "(s', g') \<in> set (rmatch r (a @ rest, g))"
    and "fst st' = s'"
    by auto
  moreover have "\<exists>p a'. a = p @ a' \<and> fst (s', g') = a' @ rest"
  proof (rule Group.IH)
    show "letters_only r" using Group.prems(1) by simp
    show "(s', g') \<in> set (rmatch r (a @ rest, g))" by (rule inner)
    show "\<forall>c\<in>set a. isletter c" by (rule Group.prems(3))
  qed
  ultimately show ?case by simp
qed

lemma spaces_none: "s = [] \<or> \<not> isspace (hd s) \<Longrightarrow> rmatch spaces (s, g) = []"
  by (cases s) auto

lemma spaces_one:
  assumes "isspace c" and "t = [] \<or> \<not> isspace (hd t)"
  shows "rmatch spaces (c # t, g) = [(t, g)]"
proof -
  have "takeWhile isspace ([c] @ t) = [c]"
    by (rule takeWhile_run) (use assms in auto)
  then have "takeWhile (in_class Space) (c # t) = [c]"
    by (simp add: in_class.simps [abs_def])
  then show ?thesis by simp
qed

lemma name_captures:
  assumes "a \<noteq> []" and "\<forall>c\<in>set a. isletter c" and "rest = [] \<or> \<not> isletter (hd rest)"
  shows "\<exists>zs. rmatch (Group n (Plus Letter)) (a @ rest, g) = (rest, (n, a) # g) # zs"
proof -
  have "takeWhile isletter (a @ rest) = a"
    by (rule takeWhile_run) (use assms in auto)
  then have run: "takeWhile (in_class Letter) (a @ rest) = a"
    by (simp add: in_class.simps [abs_def])
  have "0 < length a" using assms(1) by simp
  then have "[1..<Suc (length a)] = [1..<length a] @ [length a]"
    by (metis Suc_leI One_nat_def upt_Suc_append)
  then have "rev [1..<Suc (length a)] = length a # rev [1..<length a]"
    by simp
  then have "rmatch (Plus Letter) (a @ rest, g) =
      (rest, g) # map (\<lambda>k. (drop k (a @ rest), g)) (rev [1..<length a])"
    by (simp add: run)
  then show ?thesis by simp
qed

text \<open>
  In a text of letters followed by a character that is neither a letter nor a space,
  a pattern of letters followed by \<^verbatim>\<open>\s+\<close> is not found.
\<close>

lemma letters_then_spaces_fails:
  assumes "letters_only r" and "\<forall>c\<in>set a. isletter c"
    and "rest = [] \<or> (\<not> isletter (hd rest) \<and> \<not> isspace (hd rest))"
  shows "rmatch (Then r (Then spaces r')) (a @ rest, g) = []"
proof -
  have "rmatch spaces m1 = []" if m1: "m1 \<in> set (rmatch r (a @ rest, g))" for m1
  proof -
    obtain p a' where a': "a = p @ a'" "fst m1 = a' @ rest"
      using letters_only_consumes [OF assms(1) m1 assms(2)] assms(3) by blast
    have "fst m1 = [] \<or> \<not> isspace (hd (fst m1))"
    proof (cases a')
      case Nil
      then show ?thesis using a'(2) assms(3) by auto
    next
      case (Cons c cs)
      then have "isletter c" using a'(1) assms(2) by simp
      then show ?thesis using a'(2) Cons letter_not_space by simp
    qed
    then have "rmatch spaces (fst m1, snd m1) = []"
      by (rule spaces_none)
    then show ?thesis by simp
  qed
  then show ?thesis by simp
qed

text \<open>
  In a text that starts with a word, one space and a second word, a pattern of letters
  followed by \<^verbatim>\<open>\s+\<close> can only read the first word and the space.
\<close>

lemma letters_then_spaces_word:
  assumes "letters_only r" and "\<forall>c\<in>set f. isletter c"
    and "l \<noteq> []" and "\<forall>c\<in>set l. isletter c"
    and "x \<in> set (rmatch (Then r (Then spaces r')) (f @ CHR '' '' # l @ rest, g))"
  shows "\<exists>g'. x \<in> set (rmatch r' (l @ rest, g'))"
proof -
  from assms(5) obtain m1 m2 where m1: "m1 \<in> set (rmatch r (f @ CHR '' '' # l @ rest, g))"
    and m2: "m2 \<in> set (rmatch spaces m1)" and x: "x \<in> set (rmatch r' m2)"
    by auto
  obtain p a' where a': "f = p @ a'" "fst m1 = a' @ CHR '' '' # l @ rest"
    using letters_only_consumes [OF assms(1) m1 assms(2)] space_char by auto
  have l: "l @ rest = [] \<or> \<not> isspace (hd (l @ rest))"
    using assms(3,4) letter_not_space by (cases l) auto
  have "a' = []"
  proof (rule ccontr)
    assume "a' \<noteq> []"
    then obtain c cs where "a' = c # cs" by (cases a') auto
    then have "fst m1 = [] \<or> \<not> isspace (hd (fst m1))"
      using a' assms(2) letter_not_space by simp
    then have "rmatch spaces (fst m1, snd m1) = []"
      by (rule spaces_none)
    then show False using m2 by simp
  qed
  then have "rmatch spaces (fst m1, snd m1) = [(l @ rest, snd m1)]"
    using a'(2) spaces_one [OF space_char(1) l] by simp
  then have "m2 = (l @ rest, snd m1)"
    using m2 by simp
  then show ?thesis using x by blast
qed

lemma rmatch_Then_head:
  "rmatch r1 st = x # xs \<Longrightarrow> rmatch r2 x = y # ys \<Longrightarrow> \<exists>zs. rmatch (Then r1 r2) st = y # zs"
  by simp

lemma rmatch_Then_single: "rmatch r1 st = [x] \<Longrightarrow> rmatch (Then r1 r2) st = rmatch r2 x"
  by simp

lemma rmatch_Then_Eps: "rmatch (Then r Eps) st = rmatch r st"
proof -
  have "rmatch Eps = (\<lambda>st. [st])" by (rule ext) simp
  then show ?thesis by simp
qed

lemma rmatch_Then_Opt:
  assumes "\<And>m. m \<in> set (rmatch r st) \<Longrightarrow> rmatch r2 m = []"
  shows "rmatch (Then (Opt r) r2) st = rmatch r2 st"
  using assms by simp

lemma search_head: "rmatch r (s, []) = x # zs \<Longrightarrow> search r s = Some (snd x)"
  by simp

lemma extract_from_head:
  assumes "search p (lower prompt) = Some m" and "group m 1 = Some a" and "group m 2 = Some b"
  shows "extract_from (p # ps) prompt = Inr (Some (title a, title b))"
  using assms by simp

declare rmatch.simps [simp del]

text \<open>
  The first pattern on a text that reads \<^verbatim>\<open>show me\<close>, two words, and then nothing
  or a character that is neither a letter nor a space: the groups are the two words.
\<close>

lemma first_pattern_match:
  assumes f: "f \<noteq> []" "\<forall>c\<in>set f. isletter c"
    and l: "l \<noteq> []" "\<forall>c\<in>set l. isletter c"
    and rest: "rest = [] \<or> (\<not> isletter (hd rest) \<and> \<not> isspace (hd rest))"
  shows "\<exists>zs. rmatch (hd patterns) (''show me '' @ f @ '' '' @ l @ rest, []) =
           (rest, [(2, l), (1, f)]) # zs"
proof -
  let ?T = "f @ CHR '' '' # l @ rest"
  let ?R6 = "Then spaces (Then name2 Eps)"
  let ?R5 = "Then name1 ?R6"
  let ?for = "Then (Or (Lit ''for'') (Lit ''of'')) (Then spaces Eps)"
  let ?orders = "Then order_s (Then spaces ?for)"
  let ?R4 = "Then (Opt ?orders) ?R5"
  let ?the = "Then (Lit ''the'') (Then spaces Eps)"
  let ?R3 = "Then (Opt ?the) ?R4"
  let ?me = "Then (Lit ''me'') (Then spaces Eps)"
  let ?R2 = "Then (Opt ?me) ?R3"
  have p1: "hd patterns = Then (Lit ''show'') (Then spaces ?R2)"
    by (simp add: patterns_def seq_def alt_def)
  have nospace_l: "l @ rest = [] \<or> \<not> isspace (hd (l @ rest))"
    using l letter_not_space by (cases l) auto
  have nospace_f: "?T = [] \<or> \<not> isspace (hd ?T)"
    using f letter_not_space by (cases f) auto
  have r5: "\<exists>zs. rmatch ?R5 (?T, g) = (rest, (2, l) # (1, f) # g) # zs" for g
  proof -
    obtain z1 where n1: "rmatch name1 (f @ (CHR '' '' # l @ rest), g) =
        (CHR '' '' # l @ rest, (1, f) # g) # z1"
      using name_captures [of f "CHR '' '' # l @ rest" 1 g] f space_char by auto
    have "rmatch spaces (CHR '' '' # l @ rest, (1, f) # g) = [(l @ rest, (1, f) # g)]"
      by (rule spaces_one [OF space_char(1) nospace_l])
    then have "rmatch ?R6 (CHR '' '' # l @ rest, (1, f) # g) =
        rmatch (Then name2 Eps) (l @ rest, (1, f) # g)"
      by (rule rmatch_Then_single)
    also have "\<dots> = rmatch name2 (l @ rest, (1, f) # g)"
      by (rule rmatch_Then_Eps)
    finally obtain z2 where "rmatch ?R6 (CHR '' '' # l @ rest, (1, f) # g) =
        (rest, (2, l) # (1, f) # g) # z2"
      using name_captures [of l rest 2 "(1, f) # g"] l rest by auto
    with n1 show ?thesis
      by (rule rmatch_Then_head)
  qed
  have orders_T: "rmatch ?orders (?T, g) = []" for g
  proof -
    have "x \<notin> set (rmatch ?orders (?T, g))" for x
    proof
      assume x: "x \<in> set (rmatch ?orders (?T, g))"
      have "letters_only order_s"
        by (simp add: isletter_def)
      then obtain g' where "x \<in> set (rmatch ?for (l @ rest, g'))"
        using letters_then_spaces_word [OF _ f(2) l x] by blast
      moreover have "rmatch ?for (l @ rest, g') = []"
        by (rule letters_then_spaces_fails) (use l rest in \<open>simp_all add: isletter_def\<close>)
      ultimately show False by simp
    qed
    then show ?thesis by (metis list.set_intros(1) neq_Nil_conv)
  qed
  have r4_T: "rmatch ?R4 (?T, g) = rmatch ?R5 (?T, g)" for g
    by (rule rmatch_Then_Opt) (simp only: orders_T list.set empty_iff)
  have r4_l: "rmatch ?R4 (l @ rest, g) = []" for g
  proof -
    have "rmatch ?orders (l @ rest, g) = []"
      by (rule letters_then_spaces_fails) (use l rest in \<open>simp_all add: isletter_def\<close>)
    then have "rmatch ?R4 (l @ rest, g) = rmatch ?R5 (l @ rest, g)"
      by (intro rmatch_Then_Opt) (simp only: list.set empty_iff)
    also have "\<dots> = []"
      by (rule letters_then_spaces_fails) (use l rest in simp_all)
    finally show ?thesis .
  qed
  have r3: "rmatch ?R3 (?T, g) = rmatch ?R5 (?T, g)" for g
  proof -
    have "rmatch ?R4 m = []" if m: "m \<in> set (rmatch ?the (?T, g))" for m
    proof -
      have "letters_only (Lit ''the'')"
        by (simp add: isletter_def)
      then obtain g' where "m \<in> set (rmatch Eps (l @ rest, g'))"
        using letters_then_spaces_word [OF _ f(2) l m] by blast
      then have "m = (l @ rest, g')" by (simp add: rmatch.simps)
      then show ?thesis using r4_l by simp
    qed
    then have "rmatch ?R3 (?T, g) = rmatch ?R4 (?T, g)"
      by (rule rmatch_Then_Opt)
    then show ?thesis using r4_T by simp
  qed
  have me: "rmatch (Opt ?me) (''me '' @ ?T, []) = [(?T, []), (''me '' @ ?T, [])]"
  proof -
    have "rmatch (Lit ''me'') (''me '' @ ?T, []) = [(CHR '' '' # ?T, [])]"
      by (simp add: rmatch.simps)
    then have "rmatch ?me (''me '' @ ?T, []) = rmatch (Then spaces Eps) (CHR '' '' # ?T, [])"
      by (rule rmatch_Then_single)
    also have "\<dots> = rmatch spaces (CHR '' '' # ?T, [])"
      by (rule rmatch_Then_Eps)
    also have "\<dots> = [(?T, [])]"
      by (rule spaces_one [OF space_char(1) nospace_f])
    finally show ?thesis by (simp add: rmatch.simps)
  qed
  obtain z5 where "rmatch ?R3 (?T, []) = (rest, [(2, l), (1, f)]) # z5"
    using r5 [of "[]"] r3 [of "[]"] by auto
  with me obtain z2 where r2: "rmatch ?R2 (''me '' @ ?T, []) = (rest, [(2, l), (1, f)]) # z2"
    using rmatch_Then_head [of "Opt ?me" "(''me '' @ ?T, [])" "(?T, [])" _ ?R3] by blast
  have "rmatch (Lit ''show'') (''show me '' @ ?T, []) = [(CHR '' '' # ''me '' @ ?T, [])]"
    by (simp add: rmatch.simps)
  then have "rmatch (hd patterns) (''show me '' @ ?T, []) =
      rmatch (Then spaces ?R2) (CHR '' '' # ''me '' @ ?T, [])"
    unfolding p1 by (rule rmatch_Then_single)
  also have "\<dots> = rmatch ?R2 (''me '' @ ?T, [])"
  proof (rule rmatch_Then_single)
    show "rmatch spaces (CHR '' '' # ''me '' @ ?T, []) = [(''me '' @ ?T, [])]"
      by (rule spaces_one) (simp_all add: isspace_def)
  qed
  finally have "rmatch (hd patterns) (''show me '' @ ?T, []) = (rest, [(2, l), (1, f)]) # z2"
    using r2 by simp
  then show ?thesis by simp
qed

declare rmatch.simps [simp]

text \<open>Title case on a word of the lowered prompt: the first letter is raised, the rest is kept.\<close>

lemma lower_char_not_capital:
  "\<not> (65 \<le> (of_char (lower_char c) :: nat) \<and> (of_char (lower_char c) :: nat) \<le> 90)"
proof -
  have "(of_char c :: nat) < 256" by simp
  then show ?thesis
    unfolding lower_char_def Let_def by (auto simp: of_char_of)
qed

lemma lowered_letter:
  assumes "c \<in> set (lower s)" and "isletter c"
  shows "97 \<le> (of_char c :: nat) \<and> (of_char c :: nat) \<le> 122"
proof -
  obtain c' where "c = lower_char c'"
    using assms(1) by (auto simp: lower_def)
  then have "\<not> (65 \<le> (of_char c :: nat) \<and> (of_char c :: nat) \<le> 90)"
    using lower_char_not_capital by simp
  then show ?thesis
    using assms(2) by (auto simp: isletter_def Let_def)
qed

lemma title_from_small:
  "\<forall>c\<in>set s. 97 \<le> (of_char c :: nat) \<and> (of_char c :: nat) \<le> 122 \<Longrightarrow> title_from True s = s"
  by (induction s) (auto simp: isletter_def lower_ascii_def Let_def)

lemma title_small_word:
  assumes "s \<noteq> []" and "\<forall>c\<in>set s. 97 \<le> (of_char c :: nat) \<and> (of_char c :: nat) \<le> 122"
  shows "title s = upper_ascii (hd s) # tl s"
proof -
  obtain c cs where s: "s = c # cs" using assms(1) by (cases s) auto
  then have "title_from True cs = cs"
    using assms(2) by (simp add: title_from_small)
  moreover have "isletter c"
    using assms(2) s by (simp add: isletter_def)
  ultimately show ?thesis
    using s by (simp add: title_def)
qed

text \<open>
  Where the first pattern does find the name. Let the prompt, in lower case, read
  \<^verbatim>\<open>show me\<close>, a first word, a space, a second word, and then end or go on with a
  character that is neither a letter nor a space, as \<^verbatim>\<open>show me john smith's orders\<close>
  does in any casing. Then \<^verbatim>\<open>extract_customer_name\<close> returns the two words in title
  case: the first letter raised, the others as the lowered prompt has them.
\<close>

lemma extract_customer_name_show_me:
  assumes "lower prompt = ''show me '' @ f @ '' '' @ l @ rest"
    and "f \<noteq> []" and "\<forall>c\<in>set f. isletter c"
    and "l \<noteq> []" and "\<forall>c\<in>set l. isletter c"
    and "rest = [] \<or> (\<not> isletter (hd rest) \<and> \<not> isspace (hd rest))"
  shows "extract_customer_name prompt = Inr (Some (title f, title l)) \<and>
         title f = upper_ascii (hd f) # tl f \<and> title l = upper_ascii (hd l) # tl l"
proof -
  obtain zs where "rmatch (hd patterns) (lower prompt, []) = (rest, [(2, l), (1, f)]) # zs"
    using first_pattern_match [OF assms(2-6)] assms(1) by auto
  then have "search (hd patterns) (lower prompt) = Some [(2, l), (1, f)]"
    using search_head by fastforce
  moreover have "group [(2, l), (1, f)] 1 = Some f" "group [(2, l), (1, f)] 2 = Some l"
    by (simp_all add: group_def)
  ultimately have "extract_from (hd patterns # tl patterns) prompt =
      Inr (Some (title f, title l))"
    by (rule extract_from_head)
  moreover have "hd patterns # tl patterns = patterns"
    by (simp add: patterns_def)
  ultimately have result: "extract_customer_name prompt = Inr (Some (title f, title l))"
    by (simp add: extract_customer_name_def)
  have "set f \<subseteq> set (lower prompt)" "set l \<subseteq> set (lower prompt)"
    using assms(1) by auto
  then have "\<forall>c\<in>set f. 97 \<le> (of_char c :: nat) \<and> (of_char c :: nat) \<le> 122"
    and "\<forall>c\<in>set l. 97 \<le> (of_char c :: nat) \<and> (of_char c :: nat) \<le> 122"
    using lowered_letter assms(3,5) by blast+
  then have "title f = upper_ascii (hd f) # tl f" "title l = upper_ascii (hd l) # tl l"
    using title_small_word assms(2,4) by blast+
  with result show ?thesis by simp
qed

text \<open>The example of the specification, written with capitals, by that lemma.\<close>

lemma extract_customer_name_show_me_example:
  "lower ''Show me John Smith's orders'' = ''show me '' @ ''john'' @ '' '' @ ''smith'' @ '''s orders'' \<and>
   extract_customer_name ''Show me John Smith's orders'' = Inr (Some (''John'', ''Smith''))"
proof -
  have low: "lower ''Show me John Smith's orders'' =
      ''show me '' @ ''john'' @ '' '' @ ''smith'' @ '''s orders''"
    by code_simp
  have f: "''john'' \<noteq> []" "\<forall>c\<in>set ''john''. isletter c"
    by (simp_all add: isletter_def)
  have l: "''smith'' \<noteq> []" "\<forall>c\<in>set ''smith''. isletter c"
    by (simp_all add: isletter_def)
  have r: "'''s orders'' = [] \<or>
      (\<not> isletter (hd '''s orders'') \<and> \<not> isspace (hd '''s orders''))"
    by (simp add: isletter_def isspace_def)
  have t: "title ''john'' = ''John''" "title ''smith'' = ''Smith''"
    by code_simp+
  have "extract_customer_name ''Show me John Smith's orders'' =
      Inr (Some (title ''john'', title ''smith''))"
    using extract_customer_name_show_me [OF low f l r] by (rule conjunct1)
  then have "extract_customer_name ''Show me John Smith's orders'' =
      Inr (Some (''John'', ''Smith''))"
    unfolding t .
  with low show ?thesis by (rule conjI)
qed

subsection \<open>Utterances on which the groups miss the name\<close>

text \<open>
  The example of the specification, in three casings, and an utterance in which no
  pattern is found.
\<close>

lemma extract_customer_name_examples:
  "extract_customer_name ''show me john smith's orders'' = Inr (Some (''John'', ''Smith''))"
  "extract_customer_name ''Show me John Smith's orders'' = Inr (Some (''John'', ''Smith''))"
  "extract_customer_name ''SHOW ME JOHN SMITH'S ORDERS'' = Inr (Some (''John'', ''Smith''))"
  "extract_customer_name ''What are Jane Doe's orders?'' = Inr (Some (''Jane'', ''Doe''))"
  "extract_customer_name ''orders for John Smith'' = Inr (Some (''John'', ''Smith''))"
  "extract_customer_name ''tell me a joke'' = Inr None"
  by code_simp+

text \<open>
  Claim C3. For an utterance that holds a name of two words next to an order keyword,
  \<^verbatim>\<open>extract_customer_name\<close> is to return these two words, in title case, whatever
  the casing of the input. The docstring of the function says as much
  (\<^verbatim>\<open>Extract first and last name from prompt using regex\<close>), and so does the comment
  on the last pattern (\<^verbatim>\<open>for when names are mentioned near "order" keywords\<close>). The
  code misses it on the two utterances below, in which \<^verbatim>\<open>john smith\<close> follows
  \<^verbatim>\<open>orders by\<close> and \<^verbatim>\<open>orders for\<close>, and returns two other words of the utterance.
  In \<^verbatim>\<open>show orders by john smith\<close> the first pattern is found: its optional part
  reads \<^verbatim>\<open>for\<close> and \<^verbatim>\<open>of\<close> but not \<^verbatim>\<open>by\<close>, which the sixth pattern does read, and
  its groups take the two words after \<^verbatim>\<open>show\<close>. In
  \<^verbatim>\<open>What are the orders for John Smith\<close> the second pattern is found at
  \<^verbatim>\<open>are the orders\<close>, before the sixth pattern is tried.
\<close>

theorem extract_customer_name_takes_keywords:
  "extract_customer_name ''show orders by john smith'' = Inr (Some (''Orders'', ''By'')) \<and>
   extract_customer_name ''What are the orders for John Smith'' = Inr (Some (''Are'', ''The''))"
  by code_simp

section \<open>The order table: results\<close>

lemma append_blocks_concat:
  "append_blocks html orders = html @ concat (map order_block orders)"
  by (induction orders arbitrary: html) auto

lemma slice_to_take: "slice_to xs (int n) = take n xs"
  by (simp add: slice_to_def norm_idx_def min_def)

lemma round_half_even_near: "\<bar>x - of_int (round_half_even x)\<bar> \<le> 1 / 2"
proof -
  have lo: "of_int \<lfloor>x\<rfloor> \<le> x" and hi: "x < of_int \<lfloor>x\<rfloor> + 1"
    by linarith+
  show ?thesis
    unfolding round_half_even_def Let_def using lo hi by (simp add: abs_le_iff)
qed

lemma round_half_even_nonneg: "0 \<le> x \<Longrightarrow> 0 \<le> round_half_even x"
  unfolding round_half_even_def Let_def by simp

lemma near_cents:
  fixes y :: rat
  assumes "\<bar>y * 100 - of_nat m\<bar> \<le> 1 / 2"
  shows "\<bar>y - (of_nat (m div 100) + of_nat (m mod 100) / 100)\<bar> \<le> 1 / 200"
proof -
  have "m = m div 100 * 100 + m mod 100" by simp
  then have "(of_nat m :: rat) = of_nat (m div 100 * 100 + m mod 100)" by simp
  then have split: "(of_nat m :: rat) = of_nat (m div 100) * 100 + of_nat (m mod 100)"
    by (simp only: of_nat_add of_nat_mult of_nat_numeral)
  have "\<bar>y * 100 - (of_nat (m div 100) * 100 + of_nat (m mod 100))\<bar> \<le> 1 / 2"
    using assms unfolding split .
  then show ?thesis
    by (simp add: abs_le_iff field_simps)
qed

lemma digits_of_cents:
  "m mod 100 div 10 = m div 10 mod 10" "m mod 100 mod 10 = m mod (10::nat)"
proof -
  have "m mod (10 * 10) = 10 * (m div 10 mod 10) + m mod 10"
    by (rule mod_mult2_eq)
  then have e: "m mod 100 = 10 * (m div 10 mod 10) + m mod 10" by simp
  show "m mod 100 div 10 = m div 10 mod 10" unfolding e by simp
  show "m mod 100 mod 10 = m mod 10" unfolding e by simp
qed

text \<open>
  The format \<^verbatim>\<open>.2f\<close>: an optional minus sign, the whole part, a point and two
  digits; the number printed differs from the price by at most half a cent.
\<close>

lemma format_2f_shape:
  "\<exists>whole cents. cents < 100 \<and>
     \<bar>\<bar>x\<bar> - (of_nat whole + of_nat cents / 100)\<bar> \<le> 1 / 200 \<and>
     format_2f x = (if x < 0 then ''-'' else []) @ str_nat whole @ ''.''
                   @ [digit (cents div 10), digit (cents mod 10)]"
proof -
  define m where "m = nat (round_half_even (\<bar>x\<bar> * 100))"
  have nonneg: "0 \<le> round_half_even (\<bar>x\<bar> * 100)"
    by (rule round_half_even_nonneg) simp
  have "\<bar>\<bar>x\<bar> * 100 - of_int (round_half_even (\<bar>x\<bar> * 100))\<bar> \<le> 1 / 2"
    by (rule round_half_even_near)
  then have "\<bar>\<bar>x\<bar> * 100 - of_nat m\<bar> \<le> 1 / 2"
    using nonneg by (simp add: m_def)
  then have near: "\<bar>\<bar>x\<bar> - (of_nat (m div 100) + of_nat (m mod 100) / 100)\<bar> \<le> 1 / 200"
    by (rule near_cents)
  have shape: "format_2f x = (if x < 0 then ''-'' else []) @ str_nat (m div 100) @ ''.''
                   @ [digit (m mod 100 div 10), digit (m mod 100 mod 10)]"
    unfolding format_2f_def Let_def m_def [symmetric] digits_of_cents by (rule refl)
  have "m mod 100 < 100" by simp
  with near shape show ?thesis by blast
qed

text \<open>
  Claim C8. For a list of orders that is not empty, \<^verbatim>\<open>format_order_table\<close> returns
  the header, then one block for each order, in the order of the list, then the
  closing tag. The block of an order shows, between fixed markup: \<^verbatim>\<open>Order #\<close>, the
  first eight characters of the identifier and three dots; the product; the quantity
  followed by \<^verbatim>\<open> units\<close>; the order date; and \<^verbatim>\<open>Total Amount: $\<close> followed by the
  price with exactly two digits after the point, at most half a cent from the price
  of the record.
\<close>

theorem format_order_table_blocks:
  assumes "orders \<noteq> []"
  shows "format_order_table orders =
           table_header @ concat (map order_block orders) @ ''</div>'' \<and>
    (\<forall>order \<in> set orders. \<exists>whole cents. cents < 100 \<and>
       \<bar>\<bar>total_price order\<bar> - (of_nat whole + of_nat cents / 100)\<bar> \<le> 1 / 200 \<and>
       order_block order =
         block_open @ ''Order #'' @ take 8 (order_id order) @ ''...''
         @ block_product @ product order
         @ block_quantity @ str_int (quantity order) @ '' units''
         @ block_order_date @ order_date order
         @ block_total @ ''Total Amount: $''
         @ (if total_price order < 0 then ''-'' else []) @ str_nat whole @ ''.''
         @ [digit (cents div 10), digit (cents mod 10)]
         @ block_close)"
proof -
  have table: "format_order_table orders =
      table_header @ concat (map order_block orders) @ ''</div>''"
    using assms by (simp add: format_order_table_def append_blocks_concat)
  have block: "\<exists>whole cents. cents < 100 \<and>
       \<bar>\<bar>total_price order\<bar> - (of_nat whole + of_nat cents / 100)\<bar> \<le> 1 / 200 \<and>
       order_block order =
         block_open @ ''Order #'' @ take 8 (order_id order) @ ''...''
         @ block_product @ product order
         @ block_quantity @ str_int (quantity order) @ '' units''
         @ block_order_date @ order_date order
         @ block_total @ ''Total Amount: $''
         @ (if total_price order < 0 then ''-'' else []) @ str_nat whole @ ''.''
         @ [digit (cents div 10), digit (cents mod 10)]
         @ block_close" for order
  proof -
    obtain whole cents where c: "cents < 100"
      and n: "\<bar>\<bar>total_price order\<bar> - (of_nat whole + of_nat cents / 100)\<bar> \<le> 1 / 200"
      and f: "format_2f (total_price order) =
                (if total_price order < 0 then ''-'' else []) @ str_nat whole @ ''.''
                @ [digit (cents div 10), digit (cents mod 10)]"
      using format_2f_shape [of "total_price order"] by blast
    have take: "slice_to (order_id order) 8 = take 8 (order_id order)"
      using slice_to_take [of "order_id order" 8] by simp
    have "order_block order =
         block_open @ ''Order #'' @ take 8 (order_id order) @ ''...''
         @ block_product @ product order
         @ block_quantity @ str_int (quantity order) @ '' units''
         @ block_order_date @ order_date order
         @ block_total @ ''Total Amount: $''
         @ (if total_price order < 0 then ''-'' else []) @ str_nat whole @ ''.''
         @ [digit (cents div 10), digit (cents mod 10)]
         @ block_close"
      unfolding order_block_def f take by simp
    with c n show ?thesis by blast
  qed
  from table block show ?thesis by blast
qed

lemma digit_values:
  "digit 0 = CHR ''0''" "digit 1 = CHR ''1''" "digit 2 = CHR ''2''" "digit 3 = CHR ''3''"
  "digit 4 = CHR ''4''" "digit 5 = CHR ''5''" "digit 6 = CHR ''6''" "digit 7 = CHR ''7''"
  "digit 8 = CHR ''8''" "digit 9 = CHR ''9''" "digit (Suc 0) = CHR ''1''"
  by (simp_all add: digit_def char_of_eq_iff)

lemma floor_numeral_div: "\<lfloor>(numeral a :: rat) / numeral b\<rfloor> = numeral a div numeral b"
  using floor_divide_of_int_eq [of "numeral a" "numeral b", where ?'a = rat] by simp

text \<open>
  The format on some prices: a tie goes to the even digit, and a negative price that
  rounds to zero keeps its sign.
\<close>

lemma format_2f_examples:
  "format_2f (3998 / 100) = ''39.98''"
  "format_2f 1000 = ''1000.00''"
  "format_2f (1 / 8) = ''0.12''"
  "format_2f (3 / 8) = ''0.38''"
  "format_2f (2675 / 1000) = ''2.68''"
  "format_2f (- 1 / 1000) = ''-0.00''"
  by (simp_all add: format_2f_def round_half_even_def digit_values Let_def floor_numeral_div)

lemma str_int_examples: "str_int 2 = ''2''" "str_int 120 = ''120''" "str_int (- 3) = ''-3''"
  by (simp_all add: str_int_def digit_values)

text \<open>
  C8 on the record of the specification's example: identifier \<^verbatim>\<open>abcd1234efgh\<close>,
  product \<^verbatim>\<open>Maple Sphere\<close>, quantity 2, date \<^verbatim>\<open>2024-01-05\<close>, price 39.98.
\<close>

theorem format_order_table_blocks_witness:
  "[\<lparr>order_id = ''abcd1234efgh'', product = ''Maple Sphere'', quantity = 2,
      order_date = ''2024-01-05'', total_price = 3998 / 100\<rparr>] \<noteq> [] \<and>
   format_order_table
     [\<lparr>order_id = ''abcd1234efgh'', product = ''Maple Sphere'', quantity = 2,
        order_date = ''2024-01-05'', total_price = 3998 / 100\<rparr>] =
     table_header @ block_open @ ''Order #abcd1234...'' @ block_product @ ''Maple Sphere''
     @ block_quantity @ ''2 units'' @ block_order_date @ ''2024-01-05''
     @ block_total @ ''Total Amount: $39.98'' @ block_close @ ''</div>''"
proof -
  define jane where "jane = \<lparr>order_id = ''abcd1234efgh'', product = ''Maple Sphere'',
    quantity = 2, order_date = ''2024-01-05'', total_price = 3998 / 100\<rparr>"
  have ne: "[jane] \<noteq> []" by simp
  have p: "format_2f (total_price jane) = ''39.98''"
    by (simp only: jane_def order.select_convs format_2f_examples)
  have q: "str_int (quantity jane) = ''2''"
    by (simp add: jane_def str_int_examples)
  have r: "slice_to (order_id jane) 8 = ''abcd1234''"
    by (simp add: jane_def slice_to_def norm_idx_def)
  have f: "product jane = ''Maple Sphere''" "order_date jane = ''2024-01-05''"
    by (simp_all add: jane_def)
  have b: "order_block jane =
     block_open @ ''Order #abcd1234...'' @ block_product @ ''Maple Sphere''
     @ block_quantity @ ''2 units'' @ block_order_date @ ''2024-01-05''
     @ block_total @ ''Total Amount: $39.98'' @ block_close"
    unfolding order_block_def p q r f by simp
  have "format_order_table [jane] = table_header @ concat (map order_block [jane]) @ ''</div>''"
    using format_order_table_blocks [OF ne] by (rule conjunct1)
  then have "format_order_table [jane] =
     table_header @ block_open @ ''Order #abcd1234...'' @ block_product @ ''Maple Sphere''
     @ block_quantity @ ''2 units'' @ block_order_date @ ''2024-01-05''
     @ block_total @ ''Total Amount: $39.98'' @ block_close @ ''</div>''"
    using b by simp
  with ne show ?thesis unfolding jane_def by blast
qed

lemma str_in_length: "str_in w s \<Longrightarrow> length w \<le> length s"
  by (auto simp: str_in_iff)

lemma length_block_open: "length block_open = 401"
  by (simp add: block_open_def)

text \<open>
  Claim C9. On the empty list \<^verbatim>\<open>format_order_table\<close> returns the notice
  \<^verbatim>\<open><div>No orders found.</div>\<close> and nothing else: the notice occurs once, and
  the block of no order occurs in the result.
\<close>

theorem format_order_table_empty:
  "format_order_table [] = ''<div>No orders found.</div>'' \<and>
   occurrences ''No orders found.'' (format_order_table []) = 1 \<and>
   (\<forall>order. \<not> str_in (order_block order) (format_order_table []))"
proof -
  have notice: "format_order_table [] = ''<div>No orders found.</div>''"
    by (simp add: format_order_table_def no_orders_found_def)
  have once: "occurrences ''No orders found.'' ''<div>No orders found.</div>'' = 1"
    by simp
  have "\<not> str_in (order_block order) ''<div>No orders found.</div>''" for order
  proof
    assume "str_in (order_block order) ''<div>No orders found.</div>''"
    then have "length (order_block order) \<le> length ''<div>No orders found.</div>''"
      by (rule str_in_length)
    moreover have "401 \<le> length (order_block order)"
      by (simp add: order_block_def length_block_open)
    ultimately show False by simp
  qed
  with notice once show ?thesis by simp
qed

section \<open>The call-back: results\<close>

lemma is_cs_request_iff:
  "is_cs_request prompt \<longleftrightarrow>
     (\<exists>keyword \<in> set cs_keywords. \<exists>p q. lower prompt = p @ keyword @ q)"
  by (simp add: is_cs_request_def list_ex_iff str_in_iff)

lemma formatted_phone_last:
  assumes "10 \<le> length (filter isdigit prompt)"
  shows "formatted_phone prompt =
           ''+1'' @ drop (length (filter isdigit prompt) - 10) (filter isdigit prompt)"
  using assms slice_from_last [of 10 "filter isdigit prompt"]
  by (simp add: formatted_phone_def)

lemma call_confirmation_display:
  assumes "length number = 10"
  shows "call_confirmation (''+1'' @ number) =
           ''Perfect! Sara will be calling you right now at ''
           @ take 3 number @ ''-'' @ take 3 (drop 3 number) @ ''-'' @ drop 6 number @ ''. ''
           @ ''She's looking forward to helping you with any questions you have about our ''
           @ ''artisanal wooden balls!''"
proof -
  have a: "slice (''+1'' @ number) (- 10) (- 7) = take 3 number"
    using assms by (simp add: slice_def norm_idx_def)
  have b: "slice (''+1'' @ number) (- 7) (- 4) = take 3 (drop 3 number)"
    using assms by (simp add: slice_def norm_idx_def)
  have c: "slice_from (''+1'' @ number) (- 4) = drop 6 number"
    using assms by (simp add: slice_from_def norm_idx_def)
  show ?thesis
    unfolding call_confirmation_def a b c by (rule refl)
qed

text \<open>
  Claim C2. Let the prompt hold at least ten digit characters and none of the request
  phrases, and let \<open>number\<close> be its last ten digit characters. Then
  \<^verbatim>\<open>handle_customer_service_request\<close> makes exactly one call to the calling service,
  with the phone number \<^verbatim>\<open>+1\<close> followed by \<open>number\<close>; and when the service answers
  with status 200, the result is the confirmation text, which shows \<open>number\<close> as three
  digits, a hyphen, three digits, a hyphen and four digits.
\<close>

theorem callback_call_and_confirmation:
  fixes prompt :: string
  defines "number \<equiv> drop (length (filter isdigit prompt) - 10) (filter isdigit prompt)"
  assumes "10 \<le> length (filter isdigit prompt)" and "\<not> is_cs_request prompt"
  shows "length number = 10 \<and>
    fst (handle_customer_service_request api_key post prompt phone_number) =
      [Post ''https://us.api.bland.ai/v1/calls'' (call_data (''+1'' @ number))
         [(''Authorization'', api_key)]] \<and>
    (\<forall>response.
       post ''https://us.api.bland.ai/v1/calls'' (call_data (''+1'' @ number))
         [(''Authorization'', api_key)] = Inr response \<and> status_code response = 200 \<longrightarrow>
       snd (handle_customer_service_request api_key post prompt phone_number) =
         Inr (Some (''Perfect! Sara will be calling you right now at ''
           @ take 3 number @ ''-'' @ take 3 (drop 3 number) @ ''-'' @ drop 6 number @ ''. ''
           @ ''She's looking forward to helping you with any questions you have about our ''
           @ ''artisanal wooden balls!'')))"
proof -
  have len: "length number = 10"
    using assms(2) by (simp add: number_def)
  have fp: "formatted_phone prompt = ''+1'' @ number"
    using assms(2) by (simp add: formatted_phone_last number_def)
  have jn: "is_just_numbers prompt"
    using assms(2) by (simp add: is_just_numbers_iff)
  have body: "call_try api_key post prompt =
    ([Post ''https://us.api.bland.ai/v1/calls'' (call_data (''+1'' @ number))
         [(''Authorization'', api_key)]],
     case post ''https://us.api.bland.ai/v1/calls'' (call_data (''+1'' @ number))
         [(''Authorization'', api_key)] of
       Inl e \<Rightarrow> Inl e
     | Inr response \<Rightarrow>
         if status_code response = 200
         then Inr (Some (call_confirmation (''+1'' @ number)))
         else Inr (Some call_failed))"
    using assms(3) jn by (simp add: call_try_def fp init_bland_def Let_def split: sum.splits)
  show ?thesis
    using len call_confirmation_display [OF len]
    by (auto simp: handle_customer_service_request_def body split: sum.splits)
qed

text \<open>
  C2 on the prompt \<^verbatim>\<open>(719) 555-0199\<close>, with a calling service that accepts the
  call: the call goes to \<^verbatim>\<open>+17195550199\<close> and the confirmation shows
  \<^verbatim>\<open>719-555-0199\<close>.
\<close>

theorem callback_call_and_confirmation_witness:
  "10 \<le> length (filter isdigit ''(719) 555-0199'') \<and>
   \<not> is_cs_request ''(719) 555-0199'' \<and>
   handle_customer_service_request None accepting_post ''(719) 555-0199'' None =
     ([Post ''https://us.api.bland.ai/v1/calls'' (call_data ''+17195550199'')
         [(''Authorization'', None)]],
      Inr (Some (''Perfect! Sara will be calling you right now at 719-555-0199. ''
           @ ''She's looking forward to helping you with any questions you have about our ''
           @ ''artisanal wooden balls!'')))"
proof -
  have d: "filter isdigit ''(719) 555-0199'' = ''7195550199''"
    by (simp add: isdigit_def)
  have n: "\<not> is_cs_request ''(719) 555-0199''"
    by code_simp
  have l: "10 \<le> length (filter isdigit ''(719) 555-0199'')"
    unfolding d by simp
  show ?thesis
    using l n callback_call_and_confirmation [OF l n, of None accepting_post None]
    by (simp add: isdigit_def accepting_post_def prod_eq_iff)
qed

text \<open>
  Claim C5. When the lowered prompt contains one of the request phrases,
  \<^verbatim>\<open>handle_customer_service_request\<close> returns the fixed text that asks for a phone
  number and makes no call to the calling service, whatever else the prompt holds.
\<close>

theorem request_phrase_asks_for_number:
  assumes "keyword \<in> set cs_keywords" and "lower prompt = before @ keyword @ after"
  shows "handle_customer_service_request api_key post prompt phone_number =
           ([], Inr (Some ask_for_number))"
proof -
  have "is_cs_request prompt"
    using assms is_cs_request_iff by blast
  then show ?thesis
    by (simp add: handle_customer_service_request_def call_try_def)
qed

text \<open>C5 on a prompt that holds a request phrase in capitals and ten digits.\<close>

theorem request_phrase_asks_for_number_witness:
  "''call me'' \<in> set cs_keywords \<and>
   lower ''Please CALL ME at 719-555-0199'' = ''please '' @ ''call me'' @ '' at 719-555-0199'' \<and>
   10 \<le> length (filter isdigit ''Please CALL ME at 719-555-0199'') \<and>
   handle_customer_service_request None accepting_post ''Please CALL ME at 719-555-0199'' None =
     ([], Inr (Some ask_for_number))"
proof -
  have k: "''call me'' \<in> set cs_keywords"
    by (simp add: cs_keywords_def)
  have l: "lower ''Please CALL ME at 719-555-0199'' =
             ''please '' @ ''call me'' @ '' at 719-555-0199''"
    by code_simp
  have d: "10 \<le> length (filter isdigit ''Please CALL ME at 719-555-0199'')"
    by (simp add: isdigit_def)
  show ?thesis
    using k l d request_phrase_asks_for_number [OF k l, of None accepting_post None] by simp
qed

section \<open>The request handlers: results\<close>

lemma chat_returns:
  "\<exists>r. chat invoke_model json_loads prompt = Inr r"
  by (simp add: chat_def split: sum.splits)

text \<open>
  A payload that is parsed but is no dictionary has no \<^verbatim>\<open>get\<close>: the lookup raises
  inside the inner \<^verbatim>\<open>try\<close>, and the result is the apology.
\<close>

lemma chat_other_payload:
  assumes "invoke_model (chat_request prompt) = Inr payload"
    and "json_loads payload = Inr response_body"
    and "\<forall>items. response_body \<noteq> JObj items"
  shows "chat invoke_model json_loads prompt =
           Inr \<lparr>type = ''text'', content = JStr model_apology\<rparr>"
  using assms by (cases response_body) (simp_all add: chat_def chat_try_def)

text \<open>
  Claim C7. When no name is found in the prompt, \<^verbatim>\<open>get_response_with_rag\<close> calls
  the language model once. If the call raises, or the payload cannot be parsed, the
  result is the fixed apology, of type \<^verbatim>\<open>text\<close>. If the payload is an object with
  no field \<^verbatim>\<open>completion\<close>, the result is the empty text.
\<close>

theorem chat_failures_give_text:
  assumes "extract_customer_name prompt = Inr None"
  shows
    "(\<forall>e. invoke_model (chat_request prompt) = Inl e \<longrightarrow>
        get_response_with_rag init_dynamodb get_customer_orders invoke_model json_loads prompt =
          ([InvokeModel (chat_request prompt)],
           Inr \<lparr>type = ''text'', content = JStr
             (''I apologize, but I'm having trouble connecting to my language model. ''
              @ ''Please try again in a moment.'')\<rparr>)) \<and>
     (\<forall>payload e. invoke_model (chat_request prompt) = Inr payload \<and>
        json_loads payload = Inl e \<longrightarrow>
        get_response_with_rag init_dynamodb get_customer_orders invoke_model json_loads prompt =
          ([InvokeModel (chat_request prompt)],
           Inr \<lparr>type = ''text'', content = JStr
             (''I apologize, but I'm having trouble connecting to my language model. ''
              @ ''Please try again in a moment.'')\<rparr>)) \<and>
     (\<forall>payload items. invoke_model (chat_request prompt) = Inr payload \<and>
        json_loads payload = Inr (JObj items) \<and> map_of items ''completion'' = None \<longrightarrow>
        get_response_with_rag init_dynamodb get_customer_orders invoke_model json_loads prompt =
          ([InvokeModel (chat_request prompt)],
           Inr \<lparr>type = ''text'', content = JStr []\<rparr>))"
  using assms
  by (simp add: get_response_with_rag_def chat_def chat_try_def model_apology_def)

text \<open>
  C7 on the prompt \<^verbatim>\<open>tell me a joke\<close>: with a language model that raises, and with
  one whose payload is the empty object.
\<close>

theorem chat_failures_give_text_witness:
  "extract_customer_name ''tell me a joke'' = Inr None \<and>
   failing_model (chat_request ''tell me a joke'') = Inl (Exception ''language model unavailable'') \<and>
   get_response_with_rag (Inr ()) failing_store failing_model failing_loads ''tell me a joke'' =
     ([InvokeModel (chat_request ''tell me a joke'')],
      Inr \<lparr>type = ''text'', content = JStr
        (''I apologize, but I'm having trouble connecting to my language model. ''
         @ ''Please try again in a moment.'')\<rparr>) \<and>
   empty_model (chat_request ''tell me a joke'') = Inr ''{}'' \<and>
   loads_empty ''{}'' = Inr (JObj []) \<and> map_of ([] :: (string \<times> json) list) ''completion'' = None \<and>
   get_response_with_rag (Inr ()) failing_store empty_model loads_empty ''tell me a joke'' =
     ([InvokeModel (chat_request ''tell me a joke'')], Inr \<lparr>type = ''text'', content = JStr []\<rparr>)"
proof -
  have none: "extract_customer_name ''tell me a joke'' = Inr None"
    by code_simp
  have raises: "failing_model (chat_request ''tell me a joke'') =
      Inl (Exception ''language model unavailable'')"
    by (simp add: failing_model_def)
  have empty: "empty_model (chat_request ''tell me a joke'') = Inr ''{}''"
    "loads_empty ''{}'' = Inr (JObj [])"
    by (simp_all add: empty_model_def loads_empty_def)
  show ?thesis
    using none raises empty
      chat_failures_give_text [OF none, of failing_model "Inr ()" failing_store failing_loads]
      chat_failures_give_text [OF none, of empty_model "Inr ()" failing_store loads_empty]
    by simp
qed

text \<open>
  The lines of \<^verbatim>\<open>get_response_with_rag\<close> under \<^verbatim>\<open>if customer_name\<close>: when a name
  is found, the function asks the order store for the orders of that name and does
  nothing else. With orders the result is the table, of type \<^verbatim>\<open>html\<close>; with none it
  is the text that no orders were found.
\<close>

lemma order_lookup_response:
  assumes "extract_customer_name prompt = Inr (Some (first_name, last_name))"
    and "init_dynamodb = Inr db"
    and "get_customer_orders db first_name last_name = Inr orders"
  shows "get_response_with_rag init_dynamodb get_customer_orders invoke_model json_loads prompt =
    ([Query first_name last_name],
     Inr (if orders \<noteq> []
          then \<lparr>type = ''html'', content = JStr (format_order_table orders)\<rparr>
          else \<lparr>type = ''text'', content = JStr
                 (''I couldn't find any orders for '' @ first_name @ '' '' @ last_name
                  @ ''. Would you like to place a new order?'')\<rparr>))"
  using assms by (simp add: get_response_with_rag_def not_found_text_def)

text \<open>
  The call-back handler answers every utterance that holds a request phrase or ten
  digits: it does not return \<^verbatim>\<open>None\<close>, and it does not raise.
\<close>

lemma callback_handler_answers:
  assumes "is_cs_request prompt \<or> 10 \<le> length (filter isdigit prompt)"
  shows "\<exists>calls reply.
    handle_customer_service_request api_key post prompt phone_number = (calls, Inr (Some reply))"
  using assms
  by (auto simp: handle_customer_service_request_def call_try_def is_just_numbers_iff Let_def
      split: sum.splits)

text \<open>
  The rules of the router below the first, on an utterance in which no name is found:
  a request phrase gives the prompt for a number, no call, and the state
  \<^verbatim>\<open>AWAITING_PHONE\<close>; ten digits without a request phrase give one call to the
  calling service and reset the state; anything else goes to the language model.
\<close>

lemma route_without_name:
  assumes "extract_customer_name utterance = Inr None"
  shows "is_cs_request utterance \<Longrightarrow>
      route init_dynamodb get_customer_orders invoke_model json_loads api_key post utterance state =
        (([], Inr \<lparr>type = ''text'', content = JStr ask_for_number\<rparr>),
         state\<lparr>customer_service_mode := True\<rparr>)"
    and "\<not> is_cs_request utterance \<Longrightarrow> 10 \<le> length (filter isdigit utterance) \<Longrightarrow>
      \<exists>reply.
        route init_dynamodb get_customer_orders invoke_model json_loads api_key post utterance state =
          (([Post ''https://us.api.bland.ai/v1/calls'' (call_data (formatted_phone utterance))
               [(''Authorization'', api_key)]],
            Inr \<lparr>type = ''text'', content = JStr reply\<rparr>),
           state\<lparr>customer_service_mode := False\<rparr>)"
    and "\<not> is_cs_request utterance \<Longrightarrow> \<not> 10 \<le> length (filter isdigit utterance) \<Longrightarrow>
      route init_dynamodb get_customer_orders invoke_model json_loads api_key post utterance state =
        (([InvokeModel (chat_request utterance)], chat invoke_model json_loads utterance), state)"
  using assms
  by (auto simp: route_def text_response_def handle_customer_service_request_def call_try_def
      is_just_numbers_iff init_bland_def get_response_with_rag_def Let_def split: sum.splits)

text \<open>
  Claim C6. Let a name be found in the utterance, let the utterance hold ten digit
  characters or more, and let the order store answer. Then the router handles the
  utterance as an order lookup, whatever the session state: the one service called is
  the order store, asked for the orders of that name, so no call-back is placed; the
  response is the table of the orders, of type \<^verbatim>\<open>html\<close>, or with no orders the
  text that none were found; and the state is returned as it was. The call-back
  handler, asked on the same utterance, would have answered it: the two rules
  compete, and the order lookup wins.
\<close>

theorem order_lookup_takes_precedence:
  assumes "extract_customer_name utterance = Inr (Some (first_name, last_name))"
    and "10 \<le> length (filter isdigit utterance)"
    and "init_dynamodb = Inr db"
    and "get_customer_orders db first_name last_name = Inr orders"
  shows
    "route init_dynamodb get_customer_orders invoke_model json_loads api_key post utterance state =
       (([Query first_name last_name],
         Inr (if orders \<noteq> []
              then \<lparr>type = ''html'', content = JStr (format_order_table orders)\<rparr>
              else \<lparr>type = ''text'', content = JStr
                     (''I couldn't find any orders for '' @ first_name @ '' '' @ last_name
                      @ ''. Would you like to place a new order?'')\<rparr>)),
        state) \<and>
     (\<exists>calls reply.
        handle_customer_service_request api_key post utterance (pending_phone_number state) =
          (calls, Inr (Some reply)))"
proof
  show "route init_dynamodb get_customer_orders invoke_model json_loads api_key post
      utterance state =
       (([Query first_name last_name],
         Inr (if orders \<noteq> []
              then \<lparr>type = ''html'', content = JStr (format_order_table orders)\<rparr>
              else \<lparr>type = ''text'', content = JStr
                     (''I couldn't find any orders for '' @ first_name @ '' '' @ last_name
                      @ ''. Would you like to place a new order?'')\<rparr>)),
        state)"
    using assms(1,3,4) by (simp add: route_def get_response_with_rag_def not_found_text_def)
  show "\<exists>calls reply.
      handle_customer_service_request api_key post utterance (pending_phone_number state) =
        (calls, Inr (Some reply))"
    using assms(2) by (rule callback_handler_answers [OF disjI2])
qed

text \<open>
  C6 on two utterances that hold a name and ten digits. The first comes in the state
  \<^verbatim>\<open>AWAITING_PHONE\<close>, and the store has an order for its name: the router returns
  the table and the state, and places no call, where the call-back handler alone
  places a call to the number in the utterance. The second comes in the initial
  state, and the store has no order for its name.
\<close>

theorem order_lookup_takes_precedence_witness:
  "extract_customer_name ''What are Jane Doe's orders? Call 719-555-0199'' =
     Inr (Some (''Jane'', ''Doe'')) \<and>
   10 \<le> length (filter isdigit ''What are Jane Doe's orders? Call 719-555-0199'') \<and>
   sample_store () ''Jane'' ''Doe'' = Inr [sample_order] \<and>
   route (Inr ()) sample_store failing_model failing_loads None accepting_post
       ''What are Jane Doe's orders? Call 719-555-0199''
       \<lparr>pending_phone_number = None, customer_service_mode = True\<rparr> =
     (([Query ''Jane'' ''Doe''],
       Inr \<lparr>type = ''html'', content = JStr (format_order_table [sample_order])\<rparr>),
      \<lparr>pending_phone_number = None, customer_service_mode = True\<rparr>) \<and>
   handle_customer_service_request None accepting_post
       ''What are Jane Doe's orders? Call 719-555-0199'' None =
     ([Post ''https://us.api.bland.ai/v1/calls'' (call_data ''+17195550199'')
         [(''Authorization'', None)]],
      Inr (Some (call_confirmation ''+17195550199''))) \<and>
   extract_customer_name ''show me john smith's orders 7195550199'' =
     Inr (Some (''John'', ''Smith'')) \<and>
   10 \<le> length (filter isdigit ''show me john smith's orders 7195550199'') \<and>
   sample_store () ''John'' ''Smith'' = Inr [] \<and>
   route (Inr ()) sample_store failing_model failing_loads None accepting_post
       ''show me john smith's orders 7195550199'' initial_state =
     (([Query ''John'' ''Smith''],
       Inr \<lparr>type = ''text'', content = JStr
         ''I couldn't find any orders for John Smith. Would you like to place a new order?''\<rparr>),
      initial_state)"
proof -
  have jane: "extract_customer_name ''What are Jane Doe's orders? Call 719-555-0199'' =
      Inr (Some (''Jane'', ''Doe''))"
    by code_simp
  have john: "extract_customer_name ''show me john smith's orders 7195550199'' =
      Inr (Some (''John'', ''Smith''))"
    by code_simp
  have d1: "10 \<le> length (filter isdigit ''What are Jane Doe's orders? Call 719-555-0199'')"
    by (simp add: isdigit_def)
  have d2: "10 \<le> length (filter isdigit ''show me john smith's orders 7195550199'')"
    by (simp add: isdigit_def)
  have s1: "sample_store () ''Jane'' ''Doe'' = Inr [sample_order]"
    by (simp add: sample_store_def)
  have s2: "sample_store () ''John'' ''Smith'' = Inr []"
    by (simp add: sample_store_def)
  have r1: "route (Inr ()) sample_store failing_model failing_loads None accepting_post
       ''What are Jane Doe's orders? Call 719-555-0199''
       \<lparr>pending_phone_number = None, customer_service_mode = True\<rparr> =
     (([Query ''Jane'' ''Doe''],
       Inr \<lparr>type = ''html'', content = JStr (format_order_table [sample_order])\<rparr>),
      \<lparr>pending_phone_number = None, customer_service_mode = True\<rparr>)"
    using order_lookup_takes_precedence [where init_dynamodb = "Inr ()" and db = "()"
        and get_customer_orders = sample_store and invoke_model = failing_model
        and json_loads = failing_loads and api_key = None and post = accepting_post
        and state = "\<lparr>pending_phone_number = None, customer_service_mode = True\<rparr>",
        OF jane d1 refl s1]
    by simp
  have no_phrase: "\<not> is_cs_request ''What are Jane Doe's orders? Call 719-555-0199''"
    by code_simp
  have number: "formatted_phone ''What are Jane Doe's orders? Call 719-555-0199'' =
      ''+17195550199''"
    by code_simp
  have h1: "handle_customer_service_request None accepting_post
       ''What are Jane Doe's orders? Call 719-555-0199'' None =
     ([Post ''https://us.api.bland.ai/v1/calls'' (call_data ''+17195550199'')
         [(''Authorization'', None)]],
      Inr (Some (call_confirmation ''+17195550199'')))"
    using no_phrase d1 number
    by (simp add: handle_customer_service_request_def call_try_def is_just_numbers_iff
        init_bland_def accepting_post_def Let_def)
  have r2: "route (Inr ()) sample_store failing_model failing_loads None accepting_post
       ''show me john smith's orders 7195550199'' initial_state =
     (([Query ''John'' ''Smith''],
       Inr \<lparr>type = ''text'', content = JStr
         ''I couldn't find any orders for John Smith. Would you like to place a new order?''\<rparr>),
      initial_state)"
    using order_lookup_takes_precedence [where init_dynamodb = "Inr ()" and db = "()"
        and get_customer_orders = sample_store and invoke_model = failing_model
        and json_loads = failing_loads and api_key = None and post = accepting_post
        and state = initial_state, OF john d2 refl s2]
    by simp
  from jane john d1 d2 s1 s2 r1 r2 h1 show ?thesis by blast
qed

text \<open>
  Claim C1 says that no failure of a service reaches the caller as an exception. That
  holds for the calling service and for the language model, not for the order store:
  \<^verbatim>\<open>get_response_with_rag\<close> queries the store outside its inner \<^verbatim>\<open>try\<close>, and its
  outer handler ends in \<^verbatim>\<open>raise e\<close>. Here the store raises on an order request.
\<close>

theorem order_store_failure_is_raised:
  "snd (get_response_with_rag (Inr ()) failing_store failing_model failing_loads
          ''show me john smith's orders'') =
     Inl (Exception ''order store unavailable'')"
proof -
  have "extract_customer_name ''show me john smith's orders'' = Inr (Some (''John'', ''Smith''))"
    by (rule extract_customer_name_examples)
  then show ?thesis
    by (simp add: get_response_with_rag_def failing_store_def)
qed

text \<open>
  Claim C1, amended. \<^verbatim>\<open>handle_customer_service_request\<close> never raises: when the
  calling service raises, the result is a fixed text. The name extractor never raises.
  When no name is found in the prompt, \<^verbatim>\<open>get_response_with_rag\<close> does not raise,
  whatever the language model does, and a call of the model that raises gives the
  fixed apology. When a name is found, \<^verbatim>\<open>get_response_with_rag\<close> raises exactly the
  exception that the order store raises, from \<^verbatim>\<open>init_dynamodb\<close> or from
  \<^verbatim>\<open>get_customer_orders\<close>.
\<close>

theorem service_failures:
  "(\<exists>r. snd (handle_customer_service_request api_key post prompt phone_number) = Inr r) \<and>
   (\<forall>e. \<not> is_cs_request prompt \<and> 10 \<le> length (filter isdigit prompt) \<and>
      post ''https://us.api.bland.ai/v1/calls'' (call_data (formatted_phone prompt))
        [(''Authorization'', api_key)] = Inl e \<longrightarrow>
      snd (handle_customer_service_request api_key post prompt phone_number) =
        Inr (Some (''I apologize, but I'm experiencing technical difficulties arranging the call. ''
          @ ''Please contact our customer service directly at (719) 266-2837''))) \<and>
   (\<exists>name. extract_customer_name prompt = Inr name) \<and>
   (extract_customer_name prompt = Inr None \<longrightarrow>
      (\<exists>r. snd (get_response_with_rag init_dynamodb get_customer_orders invoke_model
                json_loads prompt) = Inr r) \<and>
      (\<forall>e. invoke_model (chat_request prompt) = Inl e \<longrightarrow>
         snd (get_response_with_rag init_dynamodb get_customer_orders invoke_model
                json_loads prompt) =
           Inr \<lparr>type = ''text'', content = JStr
             (''I apologize, but I'm having trouble connecting to my language model. ''
              @ ''Please try again in a moment.'')\<rparr>)) \<and>
   (\<forall>first_name last_name e.
      extract_customer_name prompt = Inr (Some (first_name, last_name)) \<longrightarrow>
      (snd (get_response_with_rag init_dynamodb get_customer_orders invoke_model
              json_loads prompt) = Inl e \<longleftrightarrow>
       init_dynamodb = Inl e \<or>
       (\<exists>db. init_dynamodb = Inr db \<and> get_customer_orders db first_name last_name = Inl e)))"
proof -
  have a: "\<exists>r. snd (handle_customer_service_request api_key post prompt phone_number) = Inr r"
    by (simp add: handle_customer_service_request_def split: prod.splits sum.splits)
  have b: "snd (handle_customer_service_request api_key post prompt phone_number) =
        Inr (Some (''I apologize, but I'm experiencing technical difficulties arranging the call. ''
          @ ''Please contact our customer service directly at (719) 266-2837''))"
    if "\<not> is_cs_request prompt" "10 \<le> length (filter isdigit prompt)"
      "post ''https://us.api.bland.ai/v1/calls'' (call_data (formatted_phone prompt))
        [(''Authorization'', api_key)] = Inl e" for e
    using that
    by (simp add: handle_customer_service_request_def call_try_def is_just_numbers_iff
        init_bland_def call_error_def)
  have c: "\<exists>r. snd (get_response_with_rag init_dynamodb get_customer_orders invoke_model
                json_loads prompt) = Inr r"
    if "extract_customer_name prompt = Inr None"
    using that chat_returns [of invoke_model json_loads prompt]
    by (simp add: get_response_with_rag_def)
  have c': "snd (get_response_with_rag init_dynamodb get_customer_orders invoke_model
                json_loads prompt) =
           Inr \<lparr>type = ''text'', content = JStr
             (''I apologize, but I'm having trouble connecting to my language model. ''
              @ ''Please try again in a moment.'')\<rparr>"
    if "extract_customer_name prompt = Inr None" "invoke_model (chat_request prompt) = Inl e"
    for e
    using that
    by (simp add: get_response_with_rag_def chat_def chat_try_def model_apology_def)
  note n = extract_customer_name_returns [of prompt]
  have d: "snd (get_response_with_rag init_dynamodb get_customer_orders invoke_model
              json_loads prompt) = Inl e \<longleftrightarrow>
       init_dynamodb = Inl e \<or>
       (\<exists>db. init_dynamodb = Inr db \<and> get_customer_orders db first_name last_name = Inl e)"
    if "extract_customer_name prompt = Inr (Some (first_name, last_name))"
    for first_name last_name e
    using that by (auto simp: get_response_with_rag_def split: sum.splits)
  from a b n c c' d show ?thesis by blast
qed

text \<open>
  The amended C1 at concrete inputs: a calling service that raises, a language model
  that raises, and an order store that raises.
\<close>

theorem service_failures_witness:
  "\<not> is_cs_request ''(719) 555-0199'' \<and> 10 \<le> length (filter isdigit ''(719) 555-0199'') \<and>
   snd (handle_customer_service_request None failing_post ''(719) 555-0199'' None) =
     Inr (Some (''I apologize, but I'm experiencing technical difficulties arranging the call. ''
          @ ''Please contact our customer service directly at (719) 266-2837'')) \<and>
   extract_customer_name ''tell me a joke'' = Inr None \<and>
   failing_model (chat_request ''tell me a joke'') = Inl (Exception ''language model unavailable'') \<and>
   snd (get_response_with_rag (Inr ()) failing_store failing_model failing_loads
          ''tell me a joke'') =
     Inr \<lparr>type = ''text'', content = JStr
       (''I apologize, but I'm having trouble connecting to my language model. ''
        @ ''Please try again in a moment.'')\<rparr> \<and>
   extract_customer_name ''orders for John Smith'' = Inr (Some (''John'', ''Smith'')) \<and>
   failing_store () ''John'' ''Smith'' = Inl (Exception ''order store unavailable'') \<and>
   snd (get_response_with_rag (Inr ()) failing_store failing_model failing_loads
          ''orders for John Smith'') = Inl (Exception ''order store unavailable'')"
proof -
  have n: "\<not> is_cs_request ''(719) 555-0199''"
    by code_simp
  have l: "10 \<le> length (filter isdigit ''(719) 555-0199'')"
    by (simp add: isdigit_def)
  have p: "failing_post ''https://us.api.bland.ai/v1/calls''
      (call_data (formatted_phone ''(719) 555-0199'')) [(''Authorization'', None)] =
      Inl (Exception ''calling service unavailable'')"
    by (simp add: failing_post_def)
  have j: "extract_customer_name ''tell me a joke'' = Inr None"
    by (rule extract_customer_name_examples)
  have o: "extract_customer_name ''orders for John Smith'' = Inr (Some (''John'', ''Smith''))"
    by (rule extract_customer_name_examples)
  have s: "failing_store () ''John'' ''Smith'' = Inl (Exception ''order store unavailable'')"
    by (simp add: failing_store_def)
  note t1 = service_failures [of None failing_post "''(719) 555-0199''" None "Inr ()"
      failing_store failing_model failing_loads]
  note t2 = service_failures [of None failing_post "''tell me a joke''" None "Inr ()"
      failing_store failing_model failing_loads]
  note t3 = service_failures [of None failing_post "''orders for John Smith''" None "Inr ()"
      failing_store failing_model failing_loads]
  have r1: "snd (handle_customer_service_request None failing_post ''(719) 555-0199'' None) =
     Inr (Some (''I apologize, but I'm experiencing technical difficulties arranging the call. ''
          @ ''Please contact our customer service directly at (719) 266-2837''))"
    using t1 n l p by blast
  have m: "failing_model (chat_request ''tell me a joke'') =
      Inl (Exception ''language model unavailable'')"
    by (simp add: failing_model_def)
  have r2: "snd (get_response_with_rag (Inr ()) failing_store failing_model failing_loads
          ''tell me a joke'') =
     Inr \<lparr>type = ''text'', content = JStr
       (''I apologize, but I'm having trouble connecting to my language model. ''
        @ ''Please try again in a moment.'')\<rparr>"
    using t2 j m by blast
  have r3: "snd (get_response_with_rag (Inr ()) failing_store failing_model failing_loads
          ''orders for John Smith'') = Inl (Exception ''order store unavailable'')"
    using t3 o s by blast
  from n l r1 j m r2 o s r3 show ?thesis by blast
qed

end
